theory Spec2Isabelle
  imports Main "HOL-Library.AList"
begin

section \<open>The Stream Deck action \<open>TriggerAutomation\<close> (src/actions/trigger-automation.ts)\<close>

text \<open>
  The action is a class with one field, \<open>timeoutHandles\<close>, whose handlers are called by
  the Stream Deck host. Everything the handlers do besides updating that field is an
  effect on the host: a title, an image or an alert on a key, an HTTP request, a write
  of the global settings, a message to the property inspector, a timer. The model passes
  one record (\<open>world\<close>) through every handler; it holds the field, the host's timer
  queue and clock, the global settings, what the environment will answer (the network,
  a failing settings read, whether a property inspector is open) and the sequence of
  effects so far, in the order in which the code awaits them.

  A handler is modelled as running to completion: every \<open>await\<close> of the source is a
  sequencing point, and no other handler or timer runs between two of them. The calls on
  the host's key object (\<open>setTitle\<close>, \<open>setImage\<close>, \<open>showAlert\<close>), \<open>setGlobalSettings\<close>
  and \<open>sendToPropertyInspector\<close> are taken to succeed; \<open>getGlobalSettings\<close> and
  \<open>fetch\<close> may fail, as the source's \<open>try\<close> blocks expect.
\<close>

subsection \<open>Values\<close>

text \<open>
  A string is a list of characters. A value of type \<open>string | undefined\<close> is a
  \<open>string option\<close>; JavaScript's truthiness test on it (\<open>if (v)\<close>, \<open>!v\<close>, \<open>v || d\<close>) holds for
  a defined, non-empty string only.
\<close>

definition truthy :: "string option \<Rightarrow> bool" where
  "truthy v = (case v of None \<Rightarrow> False | Some s \<Rightarrow> s \<noteq> [])"

text \<open>The string of a value that has passed the truthiness test.\<close>

definition text_of :: "string option \<Rightarrow> string" where
  "text_of v = (case v of None \<Rightarrow> [] | Some s \<Rightarrow> s)"

text \<open>\<open>v || d\<close>\<close>

definition or_else :: "string option \<Rightarrow> string \<Rightarrow> string" where
  "or_else v d = (if truthy v then text_of v else d)"

text \<open>
  A thrown value: an instance of \<open>Error\<close> with its message, or a primitive value that
  is not an \<open>Error\<close> (a thrown string or number, given by its text), on which reading the
  property \<open>message\<close> gives \<open>undefined\<close>. A rejected \<open>fetch\<close> or \<open>response.json()\<close> and
  the \<open>throw\<close> statements of the source throw instances of \<open>Error\<close>. The values
  \<open>null\<close> and \<open>undefined\<close>, on which reading a property throws in turn, and objects
  that are not an \<open>Error\<close> but have a \<open>message\<close>, are not among the thrown values of
  the model.
\<close>

datatype js_thrown = JsError string | JsNonError string

text \<open>\<open>haystack.includes(needle)\<close>\<close>

definition starts_with :: "string \<Rightarrow> string \<Rightarrow> bool" where
  "starts_with needle s = (take (length needle) s = needle)"

fun str_includes :: "string \<Rightarrow> string \<Rightarrow> bool" where
  "str_includes [] needle = (needle = [])"
| "str_includes (c # cs) needle = (starts_with needle (c # cs) \<or> str_includes cs needle)"

text \<open>The decimal digits of a number, as a template literal \<open>${response.status}\<close> prints them.\<close>

definition digit_char :: "nat \<Rightarrow> char" where
  "digit_char d = ''0123456789'' ! d"

fun string_of_nat :: "nat \<Rightarrow> string" where
  "string_of_nat n =
     (if n < 10 then [digit_char n] else string_of_nat (n div 10) @ [digit_char (n mod 10)])"

subsection \<open>The interfaces of the source\<close>

record AutomationSettings =
  automationId :: "string option"
  automationName :: "string option"

text \<open>
  \<open>GlobalSettings\<close> is an object with string values: an association list, in the
  order of its keys. \<open>{ ...globalSettings, apiKey }\<close> is \<open>AList.update\<close>.
\<close>

type_synonym GlobalSettings = "(string \<times> string) list"

record AutomationData =
  data_id :: string
  data_name :: string
  data_description :: "string option"

record PIData =
  apiKey :: "string option"

record PIPayload =
  action :: string
  data :: PIData

subsection \<open>The host and the network\<close>

text \<open>
  The two requests of the source: \<open>GET /api/triggers/automations\<close> with the key in the
  header \<open>x-eeko-api-key\<close>, and \<open>POST /api/triggers/streamdeck\<close> with the key, the
  action's id and the automation's id (the body's time stamp is left out).
\<close>

datatype request =
    GetAutomations string
  | PostTrigger string string string

text \<open>
  What \<open>response.json()\<close> gives: it throws, or it is an object whose \<open>automations\<close> is
  undefined or a list.
\<close>

datatype json_result = JsonThrows js_thrown | JsonValue "AutomationData list option"

text \<open>A \<open>fetch\<close> rejects, or resolves with a status and a body.\<close>

datatype fetch_outcome = Rejects js_thrown | Responds nat json_result

text \<open>\<open>response.ok\<close>: the status is in the range 200 to 299.\<close>

definition response_ok :: "nat \<Rightarrow> bool" where
  "response_ok st = (200 \<le> st \<and> st \<le> 299)"

text \<open>The messages sent to the property inspector: the event's name and its payload.\<close>

datatype relay =
    ApiKeyLoaded string
  | ApiKeyTested bool "string option"
  | AutomationsLoaded "AutomationData list"
  | AutomationsError string
  | ApiKeyError string

text \<open>The effects on the host; a key is named by the id of its action.\<close>

datatype effect =
    SetTitle string string
  | SetImage string string
  | ShowAlert string
  | Fetch request
  | SetGlobalSettings GlobalSettings
  | SendToPropertyInspector relay

text \<open>
  The closures given to \<open>setTimeout\<close>: each sets a title on a key, the one of the
  success path also an image; each then deletes its own handle from \<open>timeoutHandles\<close>.
\<close>

datatype callback =
    ResetTitle string string
  | ResetTitleImage string string string

text \<open>A pending timer: its handle, the time at which it is due, its callback.\<close>

type_synonym timer = "nat \<times> nat \<times> callback"

record world =
  timeoutHandles :: "nat list"
  timers :: "timer list"
  next_handle :: nat
  now :: nat
  globalSettings :: GlobalSettings
  settings_fault :: "js_thrown option"
  network :: "nat \<Rightarrow> fetch_outcome"
  fetches :: nat
  inspector_open :: bool
  effects :: "effect list"

text \<open>
  \<open>timeoutHandles\<close> is a JavaScript \<open>Set\<close>: a list without repetition, in insertion order.
  \<open>network w n\<close> is the outcome of the \<open>n\<close>-th request; \<open>settings_fault\<close> is what
  \<open>getGlobalSettings\<close> throws, if it does; \<open>inspector_open\<close> says that
  \<open>streamDeck.ui.current\<close> is defined.
\<close>

definition set_add :: "nat \<Rightarrow> nat list \<Rightarrow> nat list" where
  "set_add h hs = (if h \<in> set hs then hs else hs @ [h])"

definition set_delete :: "nat \<Rightarrow> nat list \<Rightarrow> nat list" where
  "set_delete h hs = removeAll h hs"

definition emit :: "effect \<Rightarrow> world \<Rightarrow> world" where
  "emit e w = w\<lparr>effects := effects w @ [e]\<rparr>"

definition setTitle :: "string \<Rightarrow> string \<Rightarrow> world \<Rightarrow> world" where
  "setTitle ctx t w = emit (SetTitle ctx t) w"

definition setImage :: "string \<Rightarrow> string \<Rightarrow> world \<Rightarrow> world" where
  "setImage ctx i w = emit (SetImage ctx i) w"

definition showAlert :: "string \<Rightarrow> world \<Rightarrow> world" where
  "showAlert ctx w = emit (ShowAlert ctx) w"

definition fetch :: "request \<Rightarrow> world \<Rightarrow> fetch_outcome \<times> world" where
  "fetch r w = (network w (fetches w), (emit (Fetch r) w)\<lparr>fetches := Suc (fetches w)\<rparr>)"

text \<open>\<open>streamDeck.ui.current?.sendToPropertyInspector(...)\<close>\<close>

definition sendToPropertyInspector :: "relay \<Rightarrow> world \<Rightarrow> world" where
  "sendToPropertyInspector r w =
     (if inspector_open w then emit (SendToPropertyInspector r) w else w)"

definition getGlobalSettings :: "world \<Rightarrow> js_thrown + GlobalSettings" where
  "getGlobalSettings w =
     (case settings_fault w of Some e \<Rightarrow> Inl e | None \<Rightarrow> Inr (globalSettings w))"

definition setGlobalSettings :: "GlobalSettings \<Rightarrow> world \<Rightarrow> world" where
  "setGlobalSettings g w = emit (SetGlobalSettings g) (w\<lparr>globalSettings := g\<rparr>)"

definition setTimeout :: "callback \<Rightarrow> nat \<Rightarrow> world \<Rightarrow> nat \<times> world" where
  "setTimeout cb delay w =
     (next_handle w,
      w\<lparr>timers := timers w @ [(next_handle w, now w + delay, cb)],
        next_handle := Suc (next_handle w)\<rparr>)"

definition clearTimeout :: "nat \<Rightarrow> world \<Rightarrow> world" where
  "clearTimeout h w = w\<lparr>timers := filter (\<lambda>tm. fst tm \<noteq> h) (timers w)\<rparr>"

text \<open>
  The pattern \<open>const timeout = setTimeout(cb, delay); this.timeoutHandles.add(timeout)\<close>
  that ends every branch of \<open>onKeyUp\<close>.
\<close>

definition schedule :: "callback \<Rightarrow> nat \<Rightarrow> world \<Rightarrow> world" where
  "schedule cb delay w =
     (case setTimeout cb delay w of
        (h, w') \<Rightarrow> w'\<lparr>timeoutHandles := set_add h (timeoutHandles w')\<rparr>)"

subsection \<open>Time\<close>

fun run_callback :: "callback \<Rightarrow> world \<Rightarrow> world" where
  "run_callback (ResetTitle ctx t) w = setTitle ctx t w"
| "run_callback (ResetTitleImage ctx t i) w = setImage ctx i (setTitle ctx t w)"

definition fire :: "timer \<Rightarrow> world \<Rightarrow> world" where
  "fire tm w =
     (case tm of (h, due, cb) \<Rightarrow>
        (let w' = run_callback cb w in w'\<lparr>timeoutHandles := set_delete h (timeoutHandles w')\<rparr>))"

definition due_at :: "timer \<Rightarrow> nat" where
  "due_at tm = fst (snd tm)"

text \<open>
  The timers due within the next \<open>d\<close> milliseconds, in the order in which they run: the
  earliest first, and those due at the same time in the order of their creation (the
  sort is stable).
\<close>

definition due_timers :: "nat \<Rightarrow> world \<Rightarrow> timer list" where
  "due_timers d w = sort_key due_at (filter (\<lambda>tm. due_at tm \<le> now w + d) (timers w))"

text \<open>\<open>advance d\<close> lets \<open>d\<close> milliseconds pass: the timers due by then leave the queue and run.\<close>

definition advance :: "nat \<Rightarrow> world \<Rightarrow> world" where
  "advance d w =
     fold fire (due_timers d w)
       (w\<lparr>now := now w + d, timers := filter (\<lambda>tm. now w + d < due_at tm) (timers w)\<rparr>)"

text \<open>
  What a callback does to the host, and what the timers pending in \<open>w\<close> do to it within
  \<open>d\<close> milliseconds.
\<close>

fun callback_effects :: "callback \<Rightarrow> effect list" where
  "callback_effects (ResetTitle ctx t) = [SetTitle ctx t]"
| "callback_effects (ResetTitleImage ctx t i) = [SetTitle ctx t, SetImage ctx i]"

definition timer_effects :: "nat \<Rightarrow> world \<Rightarrow> effect list" where
  "timer_effects d w = concat (map (\<lambda>tm. callback_effects (snd (snd tm))) (due_timers d w))"

text \<open>The title and the image a key shows after a sequence of effects: the last one set.\<close>

fun visible_title :: "string \<Rightarrow> effect list \<Rightarrow> string option" where
  "visible_title ctx [] = None"
| "visible_title ctx (e # es) =
     (case visible_title ctx es of
        Some t \<Rightarrow> Some t
      | None \<Rightarrow> (case e of SetTitle c t \<Rightarrow> (if c = ctx then Some t else None) | _ \<Rightarrow> None))"

fun visible_image :: "string \<Rightarrow> effect list \<Rightarrow> string option" where
  "visible_image ctx [] = None"
| "visible_image ctx (e # es) =
     (case visible_image ctx es of
        Some i \<Rightarrow> Some i
      | None \<Rightarrow> (case e of SetImage c i \<Rightarrow> (if c = ctx then Some i else None) | _ \<Rightarrow> None))"

subsection \<open>The methods of the class\<close>

definition getApiKey :: "world \<Rightarrow> string option" where
  "getApiKey w =
     (case getGlobalSettings w of Inl e \<Rightarrow> None | Inr g \<Rightarrow> map_of g ''apiKey'')"

text \<open>The character class \<open>[a-zA-Z0-9_-]\<close> and the pattern \<open>/^[a-zA-Z0-9_-]+$/\<close>.\<close>

definition key_char :: "char \<Rightarrow> bool" where
  "key_char c =
     (let n = (of_char c :: nat) in
        (97 \<le> n \<and> n \<le> 122) \<or> (65 \<le> n \<and> n \<le> 90) \<or> (48 \<le> n \<and> n \<le> 57)
        \<or> c = CHR ''_'' \<or> c = CHR ''-'')"

definition key_pattern :: "string \<Rightarrow> bool" where
  "key_pattern s = (s \<noteq> [] \<and> list_all key_char s)"

text \<open>
  The argument is a string by its type, so \<open>typeof apiKey === 'string'\<close> holds. A
  character outside ASCII is not in the class, so a string that the pattern accepts has
  as many characters as JavaScript counts code units in it.
\<close>

definition validateApiKey :: "string \<Rightarrow> bool" where
  "validateApiKey k = (length k > 10 \<and> length k < 200 \<and> key_pattern k)"

text \<open>A method that may throw returns what it threw, if anything, and the world it left.\<close>

definition saveApiKey :: "string \<Rightarrow> world \<Rightarrow> js_thrown option \<times> world" where
  "saveApiKey k w =
     (if validateApiKey k then
        (case getGlobalSettings w of
           Inl e \<Rightarrow> (Some e, w)
         | Inr g \<Rightarrow> (None, setGlobalSettings (AList.update ''apiKey'' k g) w))
      else (Some (JsError ''Invalid API key format''), w))"

definition onWillAppear :: "string \<Rightarrow> AutomationSettings \<Rightarrow> world \<Rightarrow> world" where
  "onWillAppear ctx settings w =
     (if truthy (automationName settings)
      then setTitle ctx (text_of (automationName settings)) w
      else setTitle ctx ''Configure\<newline>Automation'' w)"

definition automations_or_empty :: "AutomationData list option \<Rightarrow> AutomationData list" where
  "automations_or_empty a = (case a of None \<Rightarrow> [] | Some xs \<Rightarrow> xs)"

definition validateApiKeyAndFetchAutomations :: "string \<Rightarrow> world \<Rightarrow> world" where
  "validateApiKeyAndFetchAutomations k w =
     (case fetch (GetAutomations k) w of
        (Rejects e, w1) \<Rightarrow>
          sendToPropertyInspector
            (ApiKeyError ''Connection error - check your internet connection'') w1
      | (Responds st body, w1) \<Rightarrow>
          (if response_ok st then
             (case body of
                JsonThrows e \<Rightarrow>
                  sendToPropertyInspector
                    (ApiKeyError ''Connection error - check your internet connection'') w1
              | JsonValue a \<Rightarrow>
                  sendToPropertyInspector (AutomationsLoaded (automations_or_empty a)) w1)
           else
             sendToPropertyInspector
               (ApiKeyError (''API key validation failed: '' @ string_of_nat st)) w1))"

definition onDidReceiveSettings :: "string \<Rightarrow> AutomationSettings \<Rightarrow> world \<Rightarrow> world" where
  "onDidReceiveSettings ctx settings w =
     (let w1 =
        (if truthy (automationName settings)
         then setTitle ctx (text_of (automationName settings)) w
         else if truthy (getApiKey w)
         then setTitle ctx ''Select\<newline>Automation'' w
         else setTitle ctx ''Configure\<newline>Automation'' w)
      in if truthy (getApiKey w1) \<and> \<not> truthy (automationId settings)
         then validateApiKeyAndFetchAutomations (text_of (getApiKey w1)) w1
         else w1)"

definition onKeyDown :: "string \<Rightarrow> AutomationSettings \<Rightarrow> world \<Rightarrow> world" where
  "onKeyDown ctx settings w = w"

text \<open>The body of the \<open>try\<close> block of \<open>onKeyUp\<close>.\<close>

definition onKeyUp_try :: "string \<Rightarrow> AutomationSettings \<Rightarrow> world \<Rightarrow> js_thrown option \<times> world" where
  "onKeyUp_try ctx settings w =
     (if \<not> truthy (getApiKey w) then
        (None,
         schedule (ResetTitle ctx ''Configure\<newline>Automation'') 3000
           (showAlert ctx (setTitle ctx ''Missing\<newline>API Key'' w)))
      else if \<not> truthy (automationId settings) \<or> \<not> truthy (automationName settings) then
        (None,
         schedule (ResetTitle ctx ''Select\<newline>Automation'') 3000
           (showAlert ctx (setTitle ctx ''No Automation\<newline>Selected'' w)))
      else
        (case fetch (PostTrigger (text_of (getApiKey w)) ctx (text_of (automationId settings)))
                (setTitle ctx (''Triggering\<newline>'' @ text_of (automationName settings)) w) of
           (Rejects e, w1) \<Rightarrow> (Some e, w1)
         | (Responds st body, w1) \<Rightarrow>
             (if response_ok st then
                (None,
                 schedule
                   (ResetTitleImage ctx (text_of (automationName settings))
                      ''imgs/actions/automation/key'') 2000
                   (setImage ctx ''imgs/actions/automation/key-pressed''
                      (setTitle ctx (''Triggered!\<newline>'' @ text_of (automationName settings)) w1)))
              else (Some (JsError ''Failed to trigger automation''), w1))))"

text \<open>The \<open>catch\<close> block of \<open>onKeyUp\<close>.\<close>

definition errorMessage :: "js_thrown \<Rightarrow> string" where
  "errorMessage e =
     (case e of
        JsError m \<Rightarrow> (if str_includes m ''API'' then ''API Error'' else ''Failed'')
      | JsNonError v \<Rightarrow> ''Error'')"

definition onKeyUp_catch :: "string \<Rightarrow> AutomationSettings \<Rightarrow> js_thrown \<Rightarrow> world \<Rightarrow> world" where
  "onKeyUp_catch ctx settings e w =
     schedule
       (ResetTitle ctx (or_else (automationName settings) ''Configure\<newline>Automation'')) 3000
       (showAlert ctx (setTitle ctx (''Error\<newline>'' @ errorMessage e) w))"

definition onKeyUp :: "string \<Rightarrow> AutomationSettings \<Rightarrow> world \<Rightarrow> world" where
  "onKeyUp ctx settings w =
     (case onKeyUp_try ctx settings w of
        (None, w') \<Rightarrow> w'
      | (Some e, w') \<Rightarrow> onKeyUp_catch ctx settings e w')"

text \<open>\<open>this.timeoutHandles.forEach(timeout => clearTimeout(timeout)); this.timeoutHandles.clear()\<close>\<close>

definition cleanupTimeouts :: "world \<Rightarrow> world" where
  "cleanupTimeouts w = (fold clearTimeout (timeoutHandles w) w)\<lparr>timeoutHandles := []\<rparr>"

definition onWillDisappear :: "world \<Rightarrow> world" where
  "onWillDisappear w = cleanupTimeouts w"

definition handleGetApiKey :: "world \<Rightarrow> world" where
  "handleGetApiKey w = sendToPropertyInspector (ApiKeyLoaded (or_else (getApiKey w) [])) w"

text \<open>
  \<open>(error as Error).message || 'Failed to load automations'\<close>: the message of an
  \<open>Error\<close>, unless it is empty; on a primitive value the property is \<open>undefined\<close>, so
  the default is taken.
\<close>

definition message_or_default :: "js_thrown \<Rightarrow> string" where
  "message_or_default e =
     (case e of
        JsError m \<Rightarrow> (if m \<noteq> [] then m else ''Failed to load automations'')
      | JsNonError v \<Rightarrow> ''Failed to load automations'')"

definition handleFetchAutomations_catch :: "js_thrown \<Rightarrow> world \<Rightarrow> world" where
  "handleFetchAutomations_catch e w =
     sendToPropertyInspector (AutomationsError (message_or_default e)) w"

definition handleFetchAutomations :: "string \<Rightarrow> world \<Rightarrow> world" where
  "handleFetchAutomations k w =
     (case fetch (GetAutomations k) w of
        (Rejects e, w1) \<Rightarrow> handleFetchAutomations_catch e w1
      | (Responds st body, w1) \<Rightarrow>
          (if response_ok st then
             (case body of
                JsonThrows e \<Rightarrow> handleFetchAutomations_catch e w1
              | JsonValue a \<Rightarrow>
                  sendToPropertyInspector (AutomationsLoaded (automations_or_empty a)) w1)
           else
             handleFetchAutomations_catch
               (JsError (''Failed to fetch automations: '' @ string_of_nat st)) w1))"

definition test_error :: "nat \<Rightarrow> string" where
  "test_error st =
     (if st = 401 then ''Invalid or expired API key''
      else if st = 403 then ''API key does not have required permissions''
      else ''API error: '' @ string_of_nat st)"

definition handleTestApiKey :: "string \<Rightarrow> world \<Rightarrow> world" where
  "handleTestApiKey k w =
     (case fetch (GetAutomations k) w of
        (Rejects e, w1) \<Rightarrow>
          sendToPropertyInspector
            (ApiKeyTested False (Some ''Connection error - check your internet connection'')) w1
      | (Responds st body, w1) \<Rightarrow>
          (if response_ok st then
             handleFetchAutomations k (sendToPropertyInspector (ApiKeyTested True None) w1)
           else
             sendToPropertyInspector (ApiKeyTested False (Some (test_error st))) w1))"

definition onSendToPlugin :: "PIPayload \<Rightarrow> world \<Rightarrow> js_thrown option \<times> world" where
  "onSendToPlugin payload w =
     (if action payload = ''saveApiKey'' then
        (if truthy (apiKey (data payload)) then
           (case saveApiKey (text_of (apiKey (data payload))) w of
              (Some e, w1) \<Rightarrow> (Some e, w1)
            | (None, w1) \<Rightarrow> (None, handleTestApiKey (text_of (apiKey (data payload))) w1))
         else (None, w))
      else if action payload = ''testApiKey'' then
        (if truthy (apiKey (data payload))
         then (None, handleTestApiKey (text_of (apiKey (data payload))) w)
         else (None, w))
      else if action payload = ''fetchAutomations'' then
        (if truthy (apiKey (data payload))
         then (None, handleFetchAutomations (text_of (apiKey (data payload))) w)
         else (None, w))
      else if action payload = ''getApiKey'' then (None, handleGetApiKey w)
      else (None, w))"

subsection \<open>The events of the host\<close>

text \<open>
  The host calls one handler per event. Between two events time may pass (\<open>Elapse\<close>) and
  the environment may change: the global settings, the failure of their read, the
  answers of the network, the property inspector.
\<close>

datatype event =
    WillAppear string AutomationSettings
  | DidReceiveSettings string AutomationSettings
  | KeyDown string AutomationSettings
  | KeyUp string AutomationSettings
  | WillDisappear
  | SendToPlugin PIPayload
  | Elapse nat
  | Environment GlobalSettings "js_thrown option" "nat \<Rightarrow> fetch_outcome" bool

fun dispatch :: "event \<Rightarrow> world \<Rightarrow> world" where
  "dispatch (WillAppear ctx settings) w = onWillAppear ctx settings w"
| "dispatch (DidReceiveSettings ctx settings) w = onDidReceiveSettings ctx settings w"
| "dispatch (KeyDown ctx settings) w = onKeyDown ctx settings w"
| "dispatch (KeyUp ctx settings) w = onKeyUp ctx settings w"
| "dispatch WillDisappear w = onWillDisappear w"
| "dispatch (SendToPlugin payload) w = snd (onSendToPlugin payload w)"
| "dispatch (Elapse d) w = advance d w"
| "dispatch (Environment g fault net inspector) w =
     w\<lparr>globalSettings := g, settings_fault := fault, network := net, inspector_open := inspector\<rparr>"

subsection \<open>Notions used in the statements\<close>

text \<open>
  The class \<open>[A-Za-z0-9_-]\<close> written out: the 26 small letters, the 26 capitals, the ten
  digits, the underscore and the hyphen.
\<close>

definition key_alphabet :: string where
  "key_alphabet = ''abcdefghijklmnopqrstuvwxyzABCDEFGHIJKLMNOPQRSTUVWXYZ0123456789_-''"

text \<open>
  The world in which the plugin starts: no timer, no effect yet, the clock at 0, with
  the global settings \<open>g\<close>, a network that answers as \<open>net\<close> says and an open property
  inspector.
\<close>

definition fresh_world :: "GlobalSettings \<Rightarrow> (nat \<Rightarrow> fetch_outcome) \<Rightarrow> world" where
  "fresh_world g net =
     \<lparr>timeoutHandles = [], timers = [], next_handle = 0, now = 0, globalSettings = g,
      settings_fault = None, network = net, fetches = 0, inspector_open = True,
      effects = []\<rparr>"

text \<open>What \<open>sendToPropertyInspector\<close> adds to the effects: the message, if an inspector is open.\<close>

definition relayed :: "relay \<Rightarrow> world \<Rightarrow> effect list" where
  "relayed r w = (if inspector_open w then [SendToPropertyInspector r] else [])"

text \<open>The part of the world that the timers live in.\<close>

definition timer_state :: "world \<Rightarrow> timer list \<times> nat list \<times> nat" where
  "timer_state w = (timers w, timeoutHandles w, next_handle w)"

text \<open>
  The invariant of the timer queue: the handles of the pending timers are distinct, were
  all given out already, and are all in \<open>timeoutHandles\<close>.
\<close>

definition timers_tracked :: "world \<Rightarrow> bool" where
  "timers_tracked w =
     (distinct (map fst (timers w))
      \<and> list_all (\<lambda>tm. fst tm \<in> set (timeoutHandles w) \<and> fst tm < next_handle w) (timers w))"

section \<open>The format of a key\<close>

lemma key_char_alphabet: "key_char c \<longleftrightarrow> c \<in> set key_alphabet"
  by (cases c) (simp add: key_char_def key_alphabet_def Let_def)

lemma key_pattern_iff: "key_pattern s \<longleftrightarrow> s \<noteq> [] \<and> set s \<subseteq> set key_alphabet"
  by (auto simp: key_pattern_def list_all_iff key_char_alphabet)

text \<open>
  C3. \<open>validateApiKey\<close> accepts exactly the strings of 11 to 199 characters (a length
  strictly between 10 and 200) all of whose characters are in \<open>[A-Za-z0-9_-]\<close>. So it
  rejects the empty string, every string of length 10 or 200, and every string that holds
  a space or an \<open>@\<close>.
\<close>

theorem validateApiKey_exact:
  "(validateApiKey s \<longleftrightarrow> 11 \<le> length s \<and> length s \<le> 199 \<and> set s \<subseteq> set key_alphabet)
   \<and> \<not> validateApiKey []
   \<and> (length s = 10 \<longrightarrow> \<not> validateApiKey s)
   \<and> (length s = 200 \<longrightarrow> \<not> validateApiKey s)
   \<and> (CHR '' '' \<in> set s \<longrightarrow> \<not> validateApiKey s)
   \<and> (CHR ''@'' \<in> set s \<longrightarrow> \<not> validateApiKey s)"
proof -
  have main: "validateApiKey s \<longleftrightarrow> 11 \<le> length s \<and> length s \<le> 199 \<and> set s \<subseteq> set key_alphabet"
    unfolding validateApiKey_def key_pattern_iff by auto
  have space: "CHR '' '' \<notin> set key_alphabet"
    by (simp add: key_alphabet_def)
  have at_sign: "CHR ''@'' \<notin> set key_alphabet"
    by (simp add: key_alphabet_def)
  show ?thesis
    using main space at_sign by (auto simp: validateApiKey_def)
qed

theorem validateApiKey_exact_witness:
  "validateApiKey ''eko_abc-DEF_123''
   \<and> \<not> validateApiKey ''0123456789''
   \<and> \<not> validateApiKey (replicate 200 (CHR ''a''))
   \<and> \<not> validateApiKey ''eko_abc DEF_123''
   \<and> \<not> validateApiKey ''eko_abc@DEF_123''"
proof -
  have "11 \<le> length ''eko_abc-DEF_123'' \<and> length ''eko_abc-DEF_123'' \<le> 199
        \<and> set ''eko_abc-DEF_123'' \<subseteq> set key_alphabet"
    by (simp add: key_alphabet_def)
  with validateApiKey_exact [of "''eko_abc-DEF_123''"]
  have accepted: "validateApiKey ''eko_abc-DEF_123''"
    by blast
  have "length ''0123456789'' = 10"
    by simp
  with validateApiKey_exact [of "''0123456789''"]
  have ten: "\<not> validateApiKey ''0123456789''"
    by blast
  have "length (replicate 200 (CHR ''a'')) = 200"
    by simp
  with validateApiKey_exact [of "replicate 200 (CHR ''a'')"]
  have two_hundred: "\<not> validateApiKey (replicate 200 (CHR ''a''))"
    by blast
  have "CHR '' '' \<in> set ''eko_abc DEF_123''"
    by simp
  with validateApiKey_exact [of "''eko_abc DEF_123''"]
  have space: "\<not> validateApiKey ''eko_abc DEF_123''"
    by blast
  have "CHR ''@'' \<in> set ''eko_abc@DEF_123''"
    by simp
  with validateApiKey_exact [of "''eko_abc@DEF_123''"]
  have at_sign: "\<not> validateApiKey ''eko_abc@DEF_123''"
    by blast
  from accepted ten two_hundred space at_sign show ?thesis
    by blast
qed

section \<open>Effects and timers\<close>

lemmas host_defs = emit_def setTitle_def setImage_def showAlert_def fetch_def
  sendToPropertyInspector_def getGlobalSettings_def setGlobalSettings_def setTimeout_def
  schedule_def

lemma insort_key_snoc:
  "f a \<le> f x \<Longrightarrow> insort_key f a (ys @ [x]) = insort_key f a ys @ [x]"
  by (induction ys) auto

lemma sort_key_snoc:
  "(\<And>y. y \<in> set xs \<Longrightarrow> f y \<le> f x) \<Longrightarrow> sort_key f (xs @ [x]) = sort_key f xs @ [x]"
proof (induction xs)
  case Nil
  then show ?case by simp
next
  case (Cons a xs)
  then show ?case by (simp add: insort_key_snoc)
qed

lemma effects_run_callback: "effects (run_callback cb w) = effects w @ callback_effects cb"
  by (cases cb) (simp_all add: host_defs)

lemma effects_fire: "effects (fire tm w) = effects w @ callback_effects (snd (snd tm))"
  by (cases tm) (simp add: fire_def Let_def effects_run_callback)

lemma effects_fold_fire:
  "effects (fold fire tms w) = effects w @ concat (map (\<lambda>tm. callback_effects (snd (snd tm))) tms)"
  by (induction tms arbitrary: w) (simp_all add: effects_fire)

lemma effects_advance: "effects (advance d w) = effects w @ timer_effects d w"
  by (simp add: advance_def timer_effects_def effects_fold_fire)

lemma due_timers_schedule_at:
  "due_timers d (schedule cb d w) = due_timers d w @ [(next_handle w, now w + d, cb)]"
proof -
  have "sort_key due_at (filter (\<lambda>tm. due_at tm \<le> now w + d) (timers w) @ [(next_handle w, now w + d, cb)])
        = sort_key due_at (filter (\<lambda>tm. due_at tm \<le> now w + d) (timers w)) @ [(next_handle w, now w + d, cb)]"
    by (rule sort_key_snoc) (simp add: due_at_def)
  then show ?thesis
    by (simp add: due_timers_def schedule_def setTimeout_def due_at_def)
qed

lemma due_timers_schedule_before:
  "d' < d \<Longrightarrow> due_timers d' (schedule cb d w) = due_timers d' w"
  by (simp add: due_timers_def schedule_def setTimeout_def due_at_def)

lemma timer_effects_schedule_at:
  "timer_effects d (schedule cb d w) = timer_effects d w @ callback_effects cb"
  by (simp add: timer_effects_def due_timers_schedule_at)

lemma timer_effects_schedule_before:
  "d' < d \<Longrightarrow> timer_effects d' (schedule cb d w) = timer_effects d' w"
  by (simp add: timer_effects_def due_timers_schedule_before)

lemma effects_schedule: "effects (schedule cb d w) = effects w"
  by (simp add: schedule_def setTimeout_def)

lemma timer_effects_emit: "timer_effects d (emit e w) = timer_effects d w"
  by (simp add: timer_effects_def due_timers_def emit_def)

lemma visible_title_append:
  "visible_title ctx (es @ es') =
     (case visible_title ctx es' of Some t \<Rightarrow> Some t | None \<Rightarrow> visible_title ctx es)"
  by (induction es) (auto split: option.splits)

lemma visible_image_append:
  "visible_image ctx (es @ es') =
     (case visible_image ctx es' of Some t \<Rightarrow> Some t | None \<Rightarrow> visible_image ctx es)"
  by (induction es) (auto split: option.splits)

section \<open>Key-up\<close>

text \<open>
  C9. A key-up while no credential is stored (the read of the global settings fails, or
  they hold no \<open>apiKey\<close>, or an empty one) sets the title \<open>Missing\<newline>API Key\<close> and
  shows an alert, and does nothing else at once: no request is made, the settings are
  not written, and the \<open>try\<close> block ends without throwing. The reset is not run before
  3000 ms have passed; when 3000 ms have passed, it has set the title
  \<open>Configure\<newline>Automation\<close>, after whatever the resets pending before the key-up did
  (\<open>timer_effects\<close>), so that this is the title the key shows.
\<close>

theorem onKeyUp_missing_credential:
  assumes "\<not> truthy (getApiKey w)"
  shows "fst (onKeyUp_try ctx settings w) = None
    \<and> effects (onKeyUp ctx settings w) =
        effects w @ [SetTitle ctx ''Missing\<newline>API Key'', ShowAlert ctx]
    \<and> visible_title ctx (effects (onKeyUp ctx settings w)) = Some ''Missing\<newline>API Key''
    \<and> fetches (onKeyUp ctx settings w) = fetches w
    \<and> globalSettings (onKeyUp ctx settings w) = globalSettings w
    \<and> (\<forall>d<3000. effects (advance d (onKeyUp ctx settings w)) =
          effects w @ [SetTitle ctx ''Missing\<newline>API Key'', ShowAlert ctx] @ timer_effects d w)
    \<and> effects (advance 3000 (onKeyUp ctx settings w)) =
        effects w @ [SetTitle ctx ''Missing\<newline>API Key'', ShowAlert ctx] @ timer_effects 3000 w
          @ [SetTitle ctx ''Configure\<newline>Automation'']
    \<and> visible_title ctx (effects (advance 3000 (onKeyUp ctx settings w))) =
        Some ''Configure\<newline>Automation''"
proof -
  let ?w0 = "showAlert ctx (setTitle ctx ''Missing\<newline>API Key'' w)"
  have body: "onKeyUp_try ctx settings w =
      (None, schedule (ResetTitle ctx ''Configure\<newline>Automation'') 3000 ?w0)"
    using assms by (simp add: onKeyUp_try_def)
  from body have up: "onKeyUp ctx settings w = schedule (ResetTitle ctx ''Configure\<newline>Automation'') 3000 ?w0"
    by (simp add: onKeyUp_def)
  have e0: "effects ?w0 = effects w @ [SetTitle ctx ''Missing\<newline>API Key'', ShowAlert ctx]"
    by (simp add: host_defs)
  have t0: "timer_effects d ?w0 = timer_effects d w" for d
    by (simp add: showAlert_def setTitle_def timer_effects_emit)
  have 1: "fst (onKeyUp_try ctx settings w) = None" by (simp add: body)
  have 2: "effects (onKeyUp ctx settings w) = effects w @ [SetTitle ctx ''Missing\<newline>API Key'', ShowAlert ctx]"
    by (simp add: up effects_schedule e0)
  have 3: "visible_title ctx (effects (onKeyUp ctx settings w)) = Some ''Missing\<newline>API Key''"
    by (simp add: 2 visible_title_append)
  have 4: "fetches (onKeyUp ctx settings w) = fetches w"
    by (simp add: up host_defs)
  have 5: "globalSettings (onKeyUp ctx settings w) = globalSettings w"
    by (simp add: up host_defs)
  have 6: "effects (advance d (onKeyUp ctx settings w)) =
          effects w @ [SetTitle ctx ''Missing\<newline>API Key'', ShowAlert ctx] @ timer_effects d w" if "d < 3000" for d
    using that by (simp add: up effects_advance effects_schedule e0 timer_effects_schedule_before t0)
  have 7: "effects (advance 3000 (onKeyUp ctx settings w)) =
        effects w @ [SetTitle ctx ''Missing\<newline>API Key'', ShowAlert ctx] @ timer_effects 3000 w
          @ [SetTitle ctx ''Configure\<newline>Automation'']"
    by (simp add: up effects_advance effects_schedule e0 timer_effects_schedule_at t0)
  have 8: "visible_title ctx (effects (advance 3000 (onKeyUp ctx settings w))) =
        Some ''Configure\<newline>Automation''"
    by (simp add: 7 visible_title_append)
  show ?thesis using 1 2 3 4 5 6 7 8 by blast
qed

theorem onKeyUp_missing_credential_witness:
  "\<not> truthy (getApiKey (fresh_world [] (\<lambda>n. Rejects (JsError ''offline''))))
   \<and> effects (advance 3000 (onKeyUp ''key1'' \<lparr>automationId = None, automationName = None\<rparr>
         (fresh_world [] (\<lambda>n. Rejects (JsError ''offline''))))) =
       [SetTitle ''key1'' ''Missing\<newline>API Key'', ShowAlert ''key1'',
        SetTitle ''key1'' ''Configure\<newline>Automation'']"
proof -
  let ?w = "fresh_world [] (\<lambda>n. Rejects (JsError ''offline''))"
  have absent: "\<not> truthy (getApiKey ?w)"
    by (simp add: getApiKey_def getGlobalSettings_def fresh_world_def truthy_def)
  have none_pending: "timer_effects 3000 ?w = []"
    by (simp add: timer_effects_def due_timers_def fresh_world_def)
  have nothing_yet: "effects ?w = []"
    by (simp add: fresh_world_def)
  from onKeyUp_missing_credential [OF absent, of "''key1''" "\<lparr>automationId = None, automationName = None\<rparr>"]
  have "effects (advance 3000 (onKeyUp ''key1'' \<lparr>automationId = None, automationName = None\<rparr> ?w)) =
        effects ?w @ [SetTitle ''key1'' ''Missing\<newline>API Key'', ShowAlert ''key1'']
          @ timer_effects 3000 ?w @ [SetTitle ''key1'' ''Configure\<newline>Automation'']"
    by blast
  with absent none_pending nothing_yet show ?thesis
    by simp
qed

lemma timer_effects_cong:
  "timers w' = timers w \<Longrightarrow> now w' = now w \<Longrightarrow> timer_effects d w' = timer_effects d w"
  by (simp add: timer_effects_def due_timers_def)

lemma starts_with_iff: "starts_with needle s \<longleftrightarrow> (\<exists>r. s = needle @ r)"
proof
  assume "starts_with needle s"
  then have "s = needle @ drop (length needle) s"
    by (metis append_take_drop_id starts_with_def)
  then show "\<exists>r. s = needle @ r" ..
next
  assume "\<exists>r. s = needle @ r"
  then show "starts_with needle s"
    by (auto simp: starts_with_def)
qed

lemma str_includes_iff: "str_includes s needle \<longleftrightarrow> (\<exists>p r. s = p @ needle @ r)"
proof (induction s)
  case Nil
  then show ?case by auto
next
  case (Cons c cs)
  have "(\<exists>p r. c # cs = p @ needle @ r) \<longleftrightarrow>
        (\<exists>r. c # cs = needle @ r) \<or> (\<exists>p r. cs = p @ needle @ r)"
  proof
    assume "\<exists>p r. c # cs = p @ needle @ r"
    then obtain p r where eq: "c # cs = p @ needle @ r" by blast
    show "(\<exists>r. c # cs = needle @ r) \<or> (\<exists>p r. cs = p @ needle @ r)"
    proof (cases p)
      case Nil
      with eq show ?thesis by auto
    next
      case (Cons a p')
      with eq have "cs = p' @ needle @ r" by simp
      then show ?thesis by blast
    qed
  next
    assume "(\<exists>r. c # cs = needle @ r) \<or> (\<exists>p r. cs = p @ needle @ r)"
    then show "\<exists>p r. c # cs = p @ needle @ r"
    proof
      assume "\<exists>r. c # cs = needle @ r"
      then obtain r where "c # cs = [] @ needle @ r" by auto
      then show ?thesis by blast
    next
      assume "\<exists>p r. cs = p @ needle @ r"
      then obtain p r where "c # cs = (c # p) @ needle @ r" by auto
      then show ?thesis by blast
    qed
  qed
  with Cons show ?case
    by (simp add: starts_with_iff)
qed

text \<open>The three branches of the trigger call, once the key and the automation are there.\<close>

lemma onKeyUp_try_trigger:
  assumes "getApiKey w = Some k" "k \<noteq> []"
    and "automationId settings = Some i" "i \<noteq> []"
    and "automationName settings = Some n" "n \<noteq> []"
  shows "onKeyUp_try ctx settings w =
    (case network w (fetches w) of
       Rejects e \<Rightarrow>
         (Some e, (emit (Fetch (PostTrigger k ctx i)) (setTitle ctx (''Triggering\<newline>'' @ n) w))
                    \<lparr>fetches := Suc (fetches w)\<rparr>)
     | Responds st body \<Rightarrow>
         (if response_ok st then
            (None,
             schedule (ResetTitleImage ctx n ''imgs/actions/automation/key'') 2000
               (setImage ctx ''imgs/actions/automation/key-pressed''
                  (setTitle ctx (''Triggered!\<newline>'' @ n)
                     ((emit (Fetch (PostTrigger k ctx i)) (setTitle ctx (''Triggering\<newline>'' @ n) w))
                        \<lparr>fetches := Suc (fetches w)\<rparr>))))
          else
            (Some (JsError ''Failed to trigger automation''),
             (emit (Fetch (PostTrigger k ctx i)) (setTitle ctx (''Triggering\<newline>'' @ n) w))
               \<lparr>fetches := Suc (fetches w)\<rparr>)))"
  using assms
  by (simp add: onKeyUp_try_def truthy_def text_of_def fetch_def setTitle_def emit_def
      split: fetch_outcome.splits)

lemma onKeyUp_triggered:
  assumes "getApiKey w = Some k" "k \<noteq> []"
    and "automationId settings = Some i" "i \<noteq> []"
    and "automationName settings = Some n" "n \<noteq> []"
    and "network w (fetches w) = Responds st body" "response_ok st"
  shows "onKeyUp ctx settings w =
           schedule (ResetTitleImage ctx n ''imgs/actions/automation/key'') 2000
               (setImage ctx ''imgs/actions/automation/key-pressed''
                  (setTitle ctx (''Triggered!\<newline>'' @ n)
                     ((emit (Fetch (PostTrigger k ctx i)) (setTitle ctx (''Triggering\<newline>'' @ n) w))
                        \<lparr>fetches := Suc (fetches w)\<rparr>)))"
  using assms(7,8) by (simp add: onKeyUp_def onKeyUp_try_trigger [OF assms(1-6)])

lemma onKeyUp_failed:
  assumes "getApiKey w = Some k" "k \<noteq> []"
    and "automationId settings = Some i" "i \<noteq> []"
    and "automationName settings = Some n" "n \<noteq> []"
    and "network w (fetches w) = Rejects e \<and> thrown = e
         \<or> (\<exists>st body. network w (fetches w) = Responds st body \<and> \<not> response_ok st)
            \<and> thrown = JsError ''Failed to trigger automation''"
  shows "onKeyUp ctx settings w =
           onKeyUp_catch ctx settings thrown
             ((emit (Fetch (PostTrigger k ctx i)) (setTitle ctx (''Triggering\<newline>'' @ n) w))
                        \<lparr>fetches := Suc (fetches w)\<rparr>)"
  using assms(7) by (auto simp add: onKeyUp_def onKeyUp_try_trigger [OF assms(1-6)])

lemma effects_onKeyUp_catch:
  "effects (onKeyUp_catch ctx settings e w) =
     effects w @ [SetTitle ctx (''Error\<newline>'' @ errorMessage e), ShowAlert ctx]"
  by (simp add: onKeyUp_catch_def effects_schedule showAlert_def setTitle_def emit_def)

text \<open>
  C1. A key-up while a credential is stored and the settings hold an automation id and an
  automation name (each defined and not empty, which is what the code tests) first sets
  the title \<open>Triggering\<newline><name>\<close> and then sends the trigger request, whatever the
  request's outcome. If the response is ok, the title becomes \<open>Triggered!\<newline><name>\<close>
  and the image the pressed asset, and nothing more happens at once. The reset is not
  run before 2000 ms have passed; when 2000 ms have passed, it has set the title \<open><name>\<close>
  and the default image, after whatever the resets pending before the key-up did, so
  that these are the title and the image the key shows.
\<close>

theorem onKeyUp_trigger_success:
  assumes "getApiKey w = Some k" "k \<noteq> []"
    and "automationId settings = Some i" "i \<noteq> []"
    and "automationName settings = Some n" "n \<noteq> []"
  shows "(\<exists>rest. effects (onKeyUp ctx settings w) =
            effects w @ [SetTitle ctx (''Triggering\<newline>'' @ n), Fetch (PostTrigger k ctx i)] @ rest)
    \<and> (\<forall>st body. network w (fetches w) = Responds st body \<and> response_ok st \<longrightarrow>
          effects (onKeyUp ctx settings w) =
            effects w @ [SetTitle ctx (''Triggering\<newline>'' @ n), Fetch (PostTrigger k ctx i),
                         SetTitle ctx (''Triggered!\<newline>'' @ n),
                         SetImage ctx ''imgs/actions/automation/key-pressed'']
        \<and> visible_title ctx (effects (onKeyUp ctx settings w)) = Some (''Triggered!\<newline>'' @ n)
        \<and> visible_image ctx (effects (onKeyUp ctx settings w)) =
            Some ''imgs/actions/automation/key-pressed''
        \<and> (\<forall>d<2000. effects (advance d (onKeyUp ctx settings w)) =
              effects (onKeyUp ctx settings w) @ timer_effects d w)
        \<and> effects (advance 2000 (onKeyUp ctx settings w)) =
            effects (onKeyUp ctx settings w) @ timer_effects 2000 w
              @ [SetTitle ctx n, SetImage ctx ''imgs/actions/automation/key'']
        \<and> visible_title ctx (effects (advance 2000 (onKeyUp ctx settings w))) = Some n
        \<and> visible_image ctx (effects (advance 2000 (onKeyUp ctx settings w))) =
            Some ''imgs/actions/automation/key'')"
proof -
  note pre = assms(1-6)
  let ?w1 = "(emit (Fetch (PostTrigger k ctx i)) (setTitle ctx (''Triggering\<newline>'' @ n) w))
                \<lparr>fetches := Suc (fetches w)\<rparr>"
  let ?w3 = "setImage ctx ''imgs/actions/automation/key-pressed''
               (setTitle ctx (''Triggered!\<newline>'' @ n) ?w1)"
  have e1: "effects ?w1 = effects w @ [SetTitle ctx (''Triggering\<newline>'' @ n), Fetch (PostTrigger k ctx i)]"
    by (simp add: emit_def setTitle_def)
  have first: "\<exists>rest. effects (onKeyUp ctx settings w) =
            effects w @ [SetTitle ctx (''Triggering\<newline>'' @ n), Fetch (PostTrigger k ctx i)] @ rest"
  proof (cases "network w (fetches w)")
    case (Rejects e)
    then have "onKeyUp ctx settings w = onKeyUp_catch ctx settings e ?w1"
      by (intro onKeyUp_failed [OF pre]) simp
    then show ?thesis
      by (simp only: effects_onKeyUp_catch e1) simp
  next
    case (Responds st body)
    show ?thesis
    proof (cases "response_ok st")
      case True
      with Responds have "onKeyUp ctx settings w =
          schedule (ResetTitleImage ctx n ''imgs/actions/automation/key'') 2000 ?w3"
        by (intro onKeyUp_triggered [OF pre])
      then show ?thesis
        by (simp only: effects_schedule) (simp add: setImage_def setTitle_def emit_def)
    next
      case False
      with Responds have "onKeyUp ctx settings w =
          onKeyUp_catch ctx settings (JsError ''Failed to trigger automation'') ?w1"
        by (intro onKeyUp_failed [OF pre]) simp
      then show ?thesis
        by (simp only: effects_onKeyUp_catch e1) simp
    qed
  qed
  have second: "effects (onKeyUp ctx settings w) =
            effects w @ [SetTitle ctx (''Triggering\<newline>'' @ n), Fetch (PostTrigger k ctx i),
                         SetTitle ctx (''Triggered!\<newline>'' @ n),
                         SetImage ctx ''imgs/actions/automation/key-pressed'']
        \<and> visible_title ctx (effects (onKeyUp ctx settings w)) = Some (''Triggered!\<newline>'' @ n)
        \<and> visible_image ctx (effects (onKeyUp ctx settings w)) =
            Some ''imgs/actions/automation/key-pressed''
        \<and> (\<forall>d<2000. effects (advance d (onKeyUp ctx settings w)) =
              effects (onKeyUp ctx settings w) @ timer_effects d w)
        \<and> effects (advance 2000 (onKeyUp ctx settings w)) =
            effects (onKeyUp ctx settings w) @ timer_effects 2000 w
              @ [SetTitle ctx n, SetImage ctx ''imgs/actions/automation/key'']
        \<and> visible_title ctx (effects (advance 2000 (onKeyUp ctx settings w))) = Some n
        \<and> visible_image ctx (effects (advance 2000 (onKeyUp ctx settings w))) =
            Some ''imgs/actions/automation/key''"
    if ok: "network w (fetches w) = Responds st body" "response_ok st" for st body
  proof -
    have up: "onKeyUp ctx settings w =
        schedule (ResetTitleImage ctx n ''imgs/actions/automation/key'') 2000 ?w3"
      by (rule onKeyUp_triggered [OF pre ok])
    have e3: "effects ?w3 = effects w @ [SetTitle ctx (''Triggering\<newline>'' @ n), Fetch (PostTrigger k ctx i),
                         SetTitle ctx (''Triggered!\<newline>'' @ n),
                         SetImage ctx ''imgs/actions/automation/key-pressed'']"
      by (simp add: emit_def setTitle_def setImage_def)
    have t3: "timer_effects d ?w3 = timer_effects d w" for d
      by (rule timer_effects_cong) (simp_all add: emit_def setTitle_def setImage_def)
    have a: "effects (onKeyUp ctx settings w) = effects w @ [SetTitle ctx (''Triggering\<newline>'' @ n), Fetch (PostTrigger k ctx i),
                         SetTitle ctx (''Triggered!\<newline>'' @ n),
                         SetImage ctx ''imgs/actions/automation/key-pressed'']"
      by (simp only: up effects_schedule e3)
    have b: "visible_title ctx (effects (onKeyUp ctx settings w)) = Some (''Triggered!\<newline>'' @ n)"
      by (simp add: a visible_title_append)
    have c: "visible_image ctx (effects (onKeyUp ctx settings w)) = Some ''imgs/actions/automation/key-pressed''"
      by (simp add: a visible_image_append)
    have d: "effects (advance d (onKeyUp ctx settings w)) =
              effects (onKeyUp ctx settings w) @ timer_effects d w" if "d < 2000" for d
      using that by (simp only: effects_advance up timer_effects_schedule_before t3)
    have e: "effects (advance 2000 (onKeyUp ctx settings w)) =
            effects (onKeyUp ctx settings w) @ timer_effects 2000 w
              @ [SetTitle ctx n, SetImage ctx ''imgs/actions/automation/key'']"
      by (simp only: effects_advance up timer_effects_schedule_at t3 callback_effects.simps)
    have f: "visible_title ctx (effects (advance 2000 (onKeyUp ctx settings w))) = Some n"
      by (simp add: e visible_title_append)
    have g: "visible_image ctx (effects (advance 2000 (onKeyUp ctx settings w))) =
            Some ''imgs/actions/automation/key''"
      by (simp add: e visible_image_append)
    from a b c d e f g show ?thesis by blast
  qed
  from first second show ?thesis by blast
qed

theorem onKeyUp_trigger_success_witness:
  "getApiKey (fresh_world [(''apiKey'', ''eko_0123456789'')] (\<lambda>n. Responds 200 (JsonValue None))) =
     Some ''eko_0123456789''
   \<and> effects (advance 2000
        (onKeyUp ''key1'' \<lparr>automationId = Some ''a1'', automationName = Some ''Lights''\<rparr>
           (fresh_world [(''apiKey'', ''eko_0123456789'')] (\<lambda>n. Responds 200 (JsonValue None))))) =
       [SetTitle ''key1'' ''Triggering\<newline>Lights'',
        Fetch (PostTrigger ''eko_0123456789'' ''key1'' ''a1''),
        SetTitle ''key1'' ''Triggered!\<newline>Lights'',
        SetImage ''key1'' ''imgs/actions/automation/key-pressed'',
        SetTitle ''key1'' ''Lights'',
        SetImage ''key1'' ''imgs/actions/automation/key'']"
proof -
  let ?W = "fresh_world [(''apiKey'', ''eko_0123456789'')] (\<lambda>n. Responds 200 (JsonValue None))"
  let ?S = "\<lparr>automationId = Some ''a1'', automationName = Some ''Lights''\<rparr>"
  have k: "getApiKey ?W = Some ''eko_0123456789''"
    by (simp add: getApiKey_def getGlobalSettings_def fresh_world_def)
  have k_ne: "''eko_0123456789'' \<noteq> []" and i_ne: "''a1'' \<noteq> []" and n_ne: "''Lights'' \<noteq> []"
    by simp_all
  have i: "automationId ?S = Some ''a1''" and n: "automationName ?S = Some ''Lights''"
    by simp_all
  have net: "network ?W (fetches ?W) = Responds 200 (JsonValue None) \<and> response_ok 200"
    by (simp add: fresh_world_def response_ok_def)
  have quiet: "timer_effects 2000 ?W = []" "effects ?W = []"
    by (simp_all add: timer_effects_def due_timers_def fresh_world_def)
  note th = onKeyUp_trigger_success [OF k k_ne i i_ne n n_ne, of "''key1''"]
  from th net have at_once: "effects (onKeyUp ''key1'' ?S ?W) =
      effects ?W @ [SetTitle ''key1'' (''Triggering\<newline>'' @ ''Lights''),
                    Fetch (PostTrigger ''eko_0123456789'' ''key1'' ''a1''),
                    SetTitle ''key1'' (''Triggered!\<newline>'' @ ''Lights''),
                    SetImage ''key1'' ''imgs/actions/automation/key-pressed'']"
    by blast
  from th net have later: "effects (advance 2000 (onKeyUp ''key1'' ?S ?W)) =
      effects (onKeyUp ''key1'' ?S ?W) @ timer_effects 2000 ?W
        @ [SetTitle ''key1'' ''Lights'', SetImage ''key1'' ''imgs/actions/automation/key'']"
    by blast
  show ?thesis
    by (rule conjI [OF k]) (simp add: later at_once quiet)
qed

text \<open>
  C4, as amended. When the trigger call of a key-up fails, the title is \<open>Error\<close>, a line
  break and a label, and an alert is shown. The label is \<open>API Error\<close> when the thrown
  value is an \<open>Error\<close> whose message contains \<open>API\<close>, \<open>Failed\<close> for every other \<open>Error\<close>
  and for a response that is not ok, and \<open>Error\<close> when the thrown value is not an
  \<open>Error\<close>. The title is one of these three fixed strings: nothing else of the thrown
  value reaches it.
\<close>

theorem onKeyUp_trigger_failure:
  assumes "getApiKey w = Some k" "k \<noteq> []"
    and "automationId settings = Some i" "i \<noteq> []"
    and "automationName settings = Some n" "n \<noteq> []"
  shows "(\<forall>m. network w (fetches w) = Rejects (JsError m) \<and> (\<exists>p r. m = p @ ''API'' @ r) \<longrightarrow>
            visible_title ctx (effects (onKeyUp ctx settings w)) = Some ''Error\<newline>API Error'')
    \<and> (\<forall>m. network w (fetches w) = Rejects (JsError m) \<and> \<not> (\<exists>p r. m = p @ ''API'' @ r) \<longrightarrow>
            visible_title ctx (effects (onKeyUp ctx settings w)) = Some ''Error\<newline>Failed'')
    \<and> (\<forall>v. network w (fetches w) = Rejects (JsNonError v) \<longrightarrow>
            visible_title ctx (effects (onKeyUp ctx settings w)) = Some ''Error\<newline>Error'')
    \<and> (\<forall>st body. network w (fetches w) = Responds st body \<and> \<not> response_ok st \<longrightarrow>
            visible_title ctx (effects (onKeyUp ctx settings w)) = Some ''Error\<newline>Failed'')
    \<and> ((\<exists>e. network w (fetches w) = Rejects e)
          \<or> (\<exists>st body. network w (fetches w) = Responds st body \<and> \<not> response_ok st) \<longrightarrow>
        visible_title ctx (effects (onKeyUp ctx settings w))
          \<in> {Some ''Error\<newline>API Error'', Some ''Error\<newline>Failed'', Some ''Error\<newline>Error''}
        \<and> (\<exists>title. effects (onKeyUp ctx settings w) =
              effects w @ [SetTitle ctx (''Triggering\<newline>'' @ n), Fetch (PostTrigger k ctx i),
                           SetTitle ctx title, ShowAlert ctx]))"
proof -
  note pre = assms
  let ?w1 = "(emit (Fetch (PostTrigger k ctx i)) (setTitle ctx (''Triggering\<newline>'' @ n) w))
                \<lparr>fetches := Suc (fetches w)\<rparr>"
  have e1: "effects ?w1 = effects w @ [SetTitle ctx (''Triggering\<newline>'' @ n), Fetch (PostTrigger k ctx i)]"
    by (simp add: emit_def setTitle_def)
  have rejected: "visible_title ctx (effects (onKeyUp ctx settings w)) = Some (''Error\<newline>'' @ errorMessage e)
      \<and> effects (onKeyUp ctx settings w) =
          effects w @ [SetTitle ctx (''Triggering\<newline>'' @ n), Fetch (PostTrigger k ctx i),
                       SetTitle ctx (''Error\<newline>'' @ errorMessage e), ShowAlert ctx]"
    if "network w (fetches w) = Rejects e" for e
  proof -
    from that have "onKeyUp ctx settings w = onKeyUp_catch ctx settings e ?w1"
      by (intro onKeyUp_failed [OF pre]) simp
    then have eff: "effects (onKeyUp ctx settings w) =
          effects w @ [SetTitle ctx (''Triggering\<newline>'' @ n), Fetch (PostTrigger k ctx i),
                       SetTitle ctx (''Error\<newline>'' @ errorMessage e), ShowAlert ctx]"
      by (simp only: effects_onKeyUp_catch e1) simp
    show ?thesis
      by (rule conjI [OF _ eff]) (simp add: eff visible_title_append)
  qed
  have refused: "visible_title ctx (effects (onKeyUp ctx settings w)) = Some ''Error\<newline>Failed''
      \<and> effects (onKeyUp ctx settings w) =
          effects w @ [SetTitle ctx (''Triggering\<newline>'' @ n), Fetch (PostTrigger k ctx i),
                       SetTitle ctx ''Error\<newline>Failed'', ShowAlert ctx]"
    if "network w (fetches w) = Responds st body" "\<not> response_ok st" for st body
  proof -
    from that have "onKeyUp ctx settings w =
        onKeyUp_catch ctx settings (JsError ''Failed to trigger automation'') ?w1"
      by (intro onKeyUp_failed [OF pre]) simp
    moreover have "errorMessage (JsError ''Failed to trigger automation'') = ''Failed''"
      by (simp add: errorMessage_def starts_with_def)
    ultimately have eff: "effects (onKeyUp ctx settings w) =
          effects w @ [SetTitle ctx (''Triggering\<newline>'' @ n), Fetch (PostTrigger k ctx i),
                       SetTitle ctx ''Error\<newline>Failed'', ShowAlert ctx]"
      by (simp only: effects_onKeyUp_catch e1) simp
    show ?thesis
      by (rule conjI [OF _ eff]) (simp add: eff visible_title_append)
  qed
  have api: "errorMessage (JsError m) = ''API Error''" if "\<exists>p r. m = p @ ''API'' @ r" for m
    using that by (simp only: errorMessage_def js_thrown.case str_includes_iff if_True)
  have other: "errorMessage (JsError m) = ''Failed''" if "\<not> (\<exists>p r. m = p @ ''API'' @ r)" for m
    using that by (simp only: errorMessage_def js_thrown.case str_includes_iff if_False)
  have non_error: "errorMessage (JsNonError v) = ''Error''" for v
    by (simp add: errorMessage_def)
  have labels: "errorMessage e \<in> {''API Error'', ''Failed'', ''Error''}" for e
    by (cases e) (simp_all add: errorMessage_def)
  have 1: "\<forall>m. network w (fetches w) = Rejects (JsError m) \<and> (\<exists>p r. m = p @ ''API'' @ r) \<longrightarrow>
            visible_title ctx (effects (onKeyUp ctx settings w)) = Some ''Error\<newline>API Error''"
  proof (intro allI impI, elim conjE)
    fix m
    assume r: "network w (fetches w) = Rejects (JsError m)" and a: "\<exists>p r. m = p @ ''API'' @ r"
    from rejected [OF r]
    have "visible_title ctx (effects (onKeyUp ctx settings w)) =
            Some (''Error\<newline>'' @ errorMessage (JsError m))" ..
    then show "visible_title ctx (effects (onKeyUp ctx settings w)) = Some ''Error\<newline>API Error''"
      by (simp only: api [OF a]) simp
  qed
  have 2: "\<forall>m. network w (fetches w) = Rejects (JsError m) \<and> \<not> (\<exists>p r. m = p @ ''API'' @ r) \<longrightarrow>
            visible_title ctx (effects (onKeyUp ctx settings w)) = Some ''Error\<newline>Failed''"
  proof (intro allI impI, elim conjE)
    fix m
    assume r: "network w (fetches w) = Rejects (JsError m)" and a: "\<not> (\<exists>p r. m = p @ ''API'' @ r)"
    from rejected [OF r]
    have "visible_title ctx (effects (onKeyUp ctx settings w)) =
            Some (''Error\<newline>'' @ errorMessage (JsError m))" ..
    then show "visible_title ctx (effects (onKeyUp ctx settings w)) = Some ''Error\<newline>Failed''"
      by (simp only: other [OF a]) simp
  qed
  have 3: "\<forall>v. network w (fetches w) = Rejects (JsNonError v) \<longrightarrow>
            visible_title ctx (effects (onKeyUp ctx settings w)) = Some ''Error\<newline>Error''"
  proof (intro allI impI)
    fix v
    assume r: "network w (fetches w) = Rejects (JsNonError v)"
    from rejected [OF r]
    have "visible_title ctx (effects (onKeyUp ctx settings w)) =
            Some (''Error\<newline>'' @ errorMessage (JsNonError v))" ..
    then show "visible_title ctx (effects (onKeyUp ctx settings w)) = Some ''Error\<newline>Error''"
      by (simp only: non_error) simp
  qed
  have 4: "\<forall>st body. network w (fetches w) = Responds st body \<and> \<not> response_ok st \<longrightarrow>
            visible_title ctx (effects (onKeyUp ctx settings w)) = Some ''Error\<newline>Failed''"
    using refused by blast
  have 5: "visible_title ctx (effects (onKeyUp ctx settings w))
          \<in> {Some ''Error\<newline>API Error'', Some ''Error\<newline>Failed'', Some ''Error\<newline>Error''}
        \<and> (\<exists>title. effects (onKeyUp ctx settings w) =
              effects w @ [SetTitle ctx (''Triggering\<newline>'' @ n), Fetch (PostTrigger k ctx i),
                           SetTitle ctx title, ShowAlert ctx])"
    if "(\<exists>e. network w (fetches w) = Rejects e)
          \<or> (\<exists>st body. network w (fetches w) = Responds st body \<and> \<not> response_ok st)"
    using that
  proof (elim disjE exE conjE)
    fix e assume r: "network w (fetches w) = Rejects e"
    from labels [of e] rejected [OF r] show ?thesis
      by auto
  next
    fix st body assume "network w (fetches w) = Responds st body" "\<not> response_ok st"
    from refused [OF this] show ?thesis
      by auto
  qed
  from 1 2 3 4 5 show ?thesis by blast
qed

theorem onKeyUp_trigger_failure_witness:
  "getApiKey (fresh_world [(''apiKey'', ''eko_0123456789'')] (\<lambda>n. Rejects (JsError ''Eeko API down''))) =
     Some ''eko_0123456789''
   \<and> visible_title ''key1''
       (effects (onKeyUp ''key1'' \<lparr>automationId = Some ''a1'', automationName = Some ''Lights''\<rparr>
          (fresh_world [(''apiKey'', ''eko_0123456789'')] (\<lambda>n. Rejects (JsError ''Eeko API down''))))) =
       Some ''Error\<newline>API Error''"
proof -
  let ?W = "fresh_world [(''apiKey'', ''eko_0123456789'')] (\<lambda>n. Rejects (JsError ''Eeko API down''))"
  let ?S = "\<lparr>automationId = Some ''a1'', automationName = Some ''Lights''\<rparr>"
  have k: "getApiKey ?W = Some ''eko_0123456789''"
    by (simp add: getApiKey_def getGlobalSettings_def fresh_world_def)
  have k_ne: "''eko_0123456789'' \<noteq> []" and i_ne: "''a1'' \<noteq> []" and n_ne: "''Lights'' \<noteq> []"
    by simp_all
  have i: "automationId ?S = Some ''a1''" and n: "automationName ?S = Some ''Lights''"
    by simp_all
  have "''Eeko API down'' = ''Eeko '' @ ''API'' @ '' down''"
    by simp
  then have has_api: "\<exists>p r. ''Eeko API down'' = p @ ''API'' @ r"
    by blast
  have net: "network ?W (fetches ?W) = Rejects (JsError ''Eeko API down'')"
    by (simp add: fresh_world_def)
  note th = onKeyUp_trigger_failure [OF k k_ne i i_ne n n_ne, of "''key1''"]
  from th net has_api
  have "visible_title ''key1'' (effects (onKeyUp ''key1'' ?S ?W)) = Some ''Error\<newline>API Error''"
    by blast
  with k show ?thesis
    by (rule conjI)
qed

text \<open>
  The claim as stated gives \<open>Failed\<close> to every failure whose message does not contain
  \<open>API\<close>, for a thrown value of any type. A thrown value that is not an \<open>Error\<close> gets the
  label \<open>Error\<close>.
\<close>

theorem onKeyUp_trigger_failure_counterexample:
  "visible_title ''key1''
     (effects (onKeyUp ''key1'' \<lparr>automationId = Some ''a1'', automationName = Some ''Lights''\<rparr>
        (fresh_world [(''apiKey'', ''eko_0123456789'')] (\<lambda>n. Rejects (JsNonError ''boom''))))) =
   Some ''Error\<newline>Error''
   \<and> ''Error\<newline>Error'' \<noteq> ''Error\<newline>API Error''
   \<and> ''Error\<newline>Error'' \<noteq> ''Error\<newline>Failed''"
  by (simp add: onKeyUp_def onKeyUp_try_def onKeyUp_catch_def errorMessage_def getApiKey_def
      truthy_def text_of_def or_else_def fresh_world_def host_defs)

section \<open>The timers and the disappear event\<close>

lemma timers_tracked_frame:
  "timer_state w' = timer_state w \<Longrightarrow> timers_tracked w' = timers_tracked w"
  by (simp add: timers_tracked_def timer_state_def)

lemma timer_state_emit: "timer_state (emit e w) = timer_state w"
  by (simp add: timer_state_def emit_def)

lemma timer_state_fetch: "timer_state (snd (fetch r w)) = timer_state w"
  by (simp add: timer_state_def fetch_def emit_def)

lemma timer_state_sendToPropertyInspector:
  "timer_state (sendToPropertyInspector r w) = timer_state w"
  by (simp add: sendToPropertyInspector_def timer_state_emit)

lemma timer_state_validateApiKeyAndFetchAutomations:
  "timer_state (validateApiKeyAndFetchAutomations k w) = timer_state w"
proof -
  obtain out w1 where f: "fetch (GetAutomations k) w = (out, w1)"
    by (cases "fetch (GetAutomations k) w")
  then have "timer_state w1 = timer_state w"
    using timer_state_fetch [of "GetAutomations k" w] by simp
  with f show ?thesis
    by (simp add: validateApiKeyAndFetchAutomations_def timer_state_sendToPropertyInspector
        split: fetch_outcome.splits json_result.splits)
qed

lemma timer_state_handleFetchAutomations:
  "timer_state (handleFetchAutomations k w) = timer_state w"
proof -
  obtain out w1 where f: "fetch (GetAutomations k) w = (out, w1)"
    by (cases "fetch (GetAutomations k) w")
  then have "timer_state w1 = timer_state w"
    using timer_state_fetch [of "GetAutomations k" w] by simp
  with f show ?thesis
    by (simp add: handleFetchAutomations_def handleFetchAutomations_catch_def
        timer_state_sendToPropertyInspector split: fetch_outcome.splits json_result.splits)
qed

lemma timer_state_handleTestApiKey:
  "timer_state (handleTestApiKey k w) = timer_state w"
proof -
  obtain out w1 where f: "fetch (GetAutomations k) w = (out, w1)"
    by (cases "fetch (GetAutomations k) w")
  then have "timer_state w1 = timer_state w"
    using timer_state_fetch [of "GetAutomations k" w] by simp
  with f show ?thesis
    by (simp add: handleTestApiKey_def timer_state_handleFetchAutomations
        timer_state_sendToPropertyInspector split: fetch_outcome.splits)
qed

lemma timer_state_saveApiKey: "timer_state (snd (saveApiKey k w)) = timer_state w"
  by (simp add: saveApiKey_def setGlobalSettings_def timer_state_emit split: sum.splits)
    (simp add: timer_state_def)

lemma timer_state_onSendToPlugin: "timer_state (snd (onSendToPlugin p w)) = timer_state w"
proof -
  let ?k = "text_of (apiKey (data p))"
  obtain r w1 where s: "saveApiKey ?k w = (r, w1)"
    by (cases "saveApiKey ?k w")
  then have "timer_state w1 = timer_state w"
    using timer_state_saveApiKey [of ?k w] by simp
  with s show ?thesis
    by (cases r)
      (simp_all add: onSendToPlugin_def handleGetApiKey_def timer_state_handleTestApiKey
        timer_state_handleFetchAutomations timer_state_sendToPropertyInspector)
qed

lemma timer_state_onWillAppear: "timer_state (onWillAppear ctx s w) = timer_state w"
  by (simp add: onWillAppear_def setTitle_def timer_state_emit)

lemma timer_state_onDidReceiveSettings:
  "timer_state (onDidReceiveSettings ctx s w) = timer_state w"
  by (simp add: onDidReceiveSettings_def Let_def setTitle_def timer_state_emit
      timer_state_validateApiKeyAndFetchAutomations)

lemma timers_tracked_schedule:
  assumes "timers_tracked w"
  shows "timers_tracked (schedule cb d w)"
proof -
  have "fst tm < next_handle w" if "tm \<in> set (timers w)" for tm
    using assms that by (auto simp: timers_tracked_def list_all_iff)
  then have "next_handle w \<notin> fst ` set (timers w)"
    by force
  with assms show ?thesis
    by (auto simp: timers_tracked_def schedule_def setTimeout_def set_add_def list_all_iff)
qed

text \<open>Every path through \<open>onKeyUp\<close> ends by scheduling one reset.\<close>

lemma onKeyUp_schedules:
  "\<exists>cb d v. onKeyUp ctx s w = schedule cb d v \<and> timer_state v = timer_state w"
proof (cases "truthy (getApiKey w)")
  case False
  then have "onKeyUp ctx s w =
      schedule (ResetTitle ctx ''Configure\<newline>Automation'') 3000
        (showAlert ctx (setTitle ctx ''Missing\<newline>API Key'' w))"
    by (simp add: onKeyUp_def onKeyUp_try_def)
  moreover have "timer_state (showAlert ctx (setTitle ctx ''Missing\<newline>API Key'' w)) = timer_state w"
      by (simp add: showAlert_def setTitle_def timer_state_emit)
  ultimately show ?thesis by blast
next
  case key: True
  show ?thesis
  proof (cases "truthy (automationId s) \<and> truthy (automationName s)")
    case False
    with key have "onKeyUp ctx s w =
        schedule (ResetTitle ctx ''Select\<newline>Automation'') 3000
          (showAlert ctx (setTitle ctx ''No Automation\<newline>Selected'' w))"
      by (auto simp add: onKeyUp_def onKeyUp_try_def)
    moreover have "timer_state (showAlert ctx (setTitle ctx ''No Automation\<newline>Selected'' w)) = timer_state w"
      by (simp add: showAlert_def setTitle_def timer_state_emit)
    ultimately show ?thesis by blast
  next
    case True
    with key obtain k i n where pre: "getApiKey w = Some k" "k \<noteq> []"
      "automationId s = Some i" "i \<noteq> []" "automationName s = Some n" "n \<noteq> []"
      by (auto simp: truthy_def split: option.splits)
    let ?w1 = "(emit (Fetch (PostTrigger k ctx i)) (setTitle ctx (''Triggering\<newline>'' @ n) w))
                 \<lparr>fetches := Suc (fetches w)\<rparr>"
    let ?w3 = "setImage ctx ''imgs/actions/automation/key-pressed''
                 (setTitle ctx (''Triggered!\<newline>'' @ n) ?w1)"
    have f3: "timer_state ?w3 = timer_state w"
      by (simp add: timer_state_def setTitle_def setImage_def emit_def)
    have f4: "timer_state (showAlert ctx (setTitle ctx t ?w1)) = timer_state w" for t
      by (simp add: timer_state_def setTitle_def showAlert_def emit_def)
    have caught: ?thesis if "onKeyUp ctx s w = onKeyUp_catch ctx s e ?w1" for e
      unfolding that onKeyUp_catch_def using f4 by blast
    show ?thesis
    proof (cases "network w (fetches w)")
      case (Rejects e)
      then have "onKeyUp ctx s w = onKeyUp_catch ctx s e ?w1"
        by (intro onKeyUp_failed [OF pre]) simp
      then show ?thesis by (rule caught)
    next
      case (Responds st body)
      show ?thesis
      proof (cases "response_ok st")
        case True
        with Responds have "onKeyUp ctx s w =
            schedule (ResetTitleImage ctx n ''imgs/actions/automation/key'') 2000 ?w3"
          by (intro onKeyUp_triggered [OF pre])
        with f3 show ?thesis by blast
      next
        case False
        with Responds have "onKeyUp ctx s w =
            onKeyUp_catch ctx s (JsError ''Failed to trigger automation'') ?w1"
          by (intro onKeyUp_failed [OF pre]) simp
        then show ?thesis by (rule caught)
      qed
    qed
  qed
qed

lemma timers_tracked_onKeyUp:
  assumes "timers_tracked w"
  shows "timers_tracked (onKeyUp ctx s w)"
proof -
  from onKeyUp_schedules [of ctx s w]
  obtain cb d v where up: "onKeyUp ctx s w = schedule cb d v"
    and frame: "timer_state v = timer_state w"
    by (elim exE conjE)
  from timers_tracked_frame [OF frame] assms have "timers_tracked v"
    by simp
  then show ?thesis
    unfolding up by (rule timers_tracked_schedule)
qed

text \<open>Running timers: a fired timer leaves the queue and its handle leaves the set.\<close>

lemma run_callback_frame:
  "timers (run_callback cb w) = timers w"
  "next_handle (run_callback cb w) = next_handle w"
  "timeoutHandles (run_callback cb w) = timeoutHandles w"
  by (cases cb; simp add: setTitle_def setImage_def emit_def)+

lemma fire_frame:
  "timers (fire tm w) = timers w"
  "next_handle (fire tm w) = next_handle w"
  "set (timeoutHandles (fire tm w)) = set (timeoutHandles w) - {fst tm}"
proof -
  obtain h due cb where tm: "tm = (h, due, cb)"
    by (rule prod_cases3)
  show "timers (fire tm w) = timers w"
    "next_handle (fire tm w) = next_handle w"
    "set (timeoutHandles (fire tm w)) = set (timeoutHandles w) - {fst tm}"
    by (simp_all add: tm fire_def Let_def set_delete_def run_callback_frame)
qed

lemma fold_fire_frame_all:
  "timers (fold fire tms w) = timers w
   \<and> next_handle (fold fire tms w) = next_handle w
   \<and> set (timeoutHandles (fold fire tms w)) = set (timeoutHandles w) - fst ` set tms"
  by (induction tms arbitrary: w) (auto simp: fire_frame)

lemma fold_fire_frame:
  "timers (fold fire tms w) = timers w"
  "next_handle (fold fire tms w) = next_handle w"
  "set (timeoutHandles (fold fire tms w)) = set (timeoutHandles w) - fst ` set tms"
  using fold_fire_frame_all [of tms w] by simp_all

lemma timers_tracked_advance:
  assumes "timers_tracked w"
  shows "timers_tracked (advance d w)"
proof -
  let ?due = "filter (\<lambda>tm. due_at tm \<le> now w + d) (timers w)"
  let ?later = "filter (\<lambda>tm. now w + d < due_at tm) (timers w)"
  have dist: "distinct (map fst (timers w))"
    and tracked: "\<And>tm. tm \<in> set (timers w) \<Longrightarrow> fst tm \<in> set (timeoutHandles w) \<and> fst tm < next_handle w"
    using assms by (auto simp: timers_tracked_def list_all_iff)
  have set_due: "set (due_timers d w) = set ?due"
    by (simp add: due_timers_def)
  have apart: "fst tm \<notin> fst ` set ?due" if "tm \<in> set ?later" for tm
  proof
    assume "fst tm \<in> fst ` set ?due"
    then obtain tm' where tm': "tm' \<in> set (timers w)" "due_at tm' \<le> now w + d" "fst tm' = fst tm"
      by auto
    from that have tm: "tm \<in> set (timers w)" "now w + d < due_at tm"
      by auto
    from dist tm(1) tm'(1) tm'(3) have "tm' = tm"
      by (meson distinct_map inj_onD)
    with tm tm' show False by simp
  qed
  have "distinct (map fst ?later)"
    using dist by (simp add: distinct_map_filter)
  moreover have "fst tm \<in> set (timeoutHandles (advance d w)) \<and> fst tm < next_handle (advance d w)"
    if "tm \<in> set ?later" for tm
    using that apart [OF that] tracked [of tm]
    by (simp add: advance_def fold_fire_frame set_due)
  ultimately show ?thesis
    by (simp add: timers_tracked_def list_all_iff advance_def fold_fire_frame)
qed




lemma fold_clearTimeout:
  "timers (fold clearTimeout hs w) = filter (\<lambda>tm. fst tm \<notin> set hs) (timers w)"
  "effects (fold clearTimeout hs w) = effects w"
  "now (fold clearTimeout hs w) = now w"
  by (induction hs arbitrary: w) (auto simp: clearTimeout_def intro: filter_cong)

lemma onWillDisappear_fields:
  "timeoutHandles (onWillDisappear w) = []"
  "timers (onWillDisappear w) = filter (\<lambda>tm. fst tm \<notin> set (timeoutHandles w)) (timers w)"
  "effects (onWillDisappear w) = effects w"
  "now (onWillDisappear w) = now w"
  by (simp_all add: onWillDisappear_def cleanupTimeouts_def fold_clearTimeout)

lemma timers_onWillDisappear:
  "timers_tracked w \<Longrightarrow> timers (onWillDisappear w) = []"
  by (auto simp: onWillDisappear_fields timers_tracked_def list_all_iff filter_empty_conv)

lemma timers_tracked_onWillDisappear:
  "timers_tracked w \<Longrightarrow> timers_tracked (onWillDisappear w)"
  by (simp add: timers_tracked_def timers_onWillDisappear)

lemma timers_tracked_dispatch:
  "timers_tracked w \<Longrightarrow> timers_tracked (dispatch ev w)"
proof (cases ev)
  case (WillAppear ctx s)
  then show "timers_tracked w \<Longrightarrow> ?thesis"
    using timers_tracked_frame [OF timer_state_onWillAppear, of ctx s w] by simp
next
  case (DidReceiveSettings ctx s)
  then show "timers_tracked w \<Longrightarrow> ?thesis"
    using timers_tracked_frame [OF timer_state_onDidReceiveSettings, of ctx s w] by simp
next
  case (KeyDown ctx s)
  then show "timers_tracked w \<Longrightarrow> ?thesis"
    by (simp add: onKeyDown_def)
next
  case (KeyUp ctx s)
  then show "timers_tracked w \<Longrightarrow> ?thesis"
    by (simp add: timers_tracked_onKeyUp)
next
  case WillDisappear
  then show "timers_tracked w \<Longrightarrow> ?thesis"
    by (simp add: timers_tracked_onWillDisappear)
next
  case (SendToPlugin p)
  then show "timers_tracked w \<Longrightarrow> ?thesis"
    using timers_tracked_frame [OF timer_state_onSendToPlugin, of p w] by simp
next
  case (Elapse d)
  then show "timers_tracked w \<Longrightarrow> ?thesis"
    by (simp add: timers_tracked_advance)
next
  case (Environment g fault net inspector)
  then show "timers_tracked w \<Longrightarrow> ?thesis"
    by (simp add: timers_tracked_def)
qed

lemma timers_tracked_fold_dispatch:
  "timers_tracked w \<Longrightarrow> timers_tracked (fold dispatch evs w)"
  by (induction evs arbitrary: w) (simp_all add: timers_tracked_dispatch)

text \<open>
  C6. Start the plugin with no timer pending and let any sequence of events happen: keys
  appear, settings change, keys are pressed and released with any outcome of the
  trigger call, messages arrive, time passes, the environment changes. When a key then
  disappears, no timer is left pending and \<open>timeoutHandles\<close> is empty, whatever number of
  resets was pending and whichever branch scheduled them; the disappear event itself
  changes no title or image, and however much time passes afterwards, no further effect
  happens. (The class keeps one set of handles for all keys of the action, so the resets
  of every key are cancelled, those of the key that disappears among them.)
\<close>

theorem onWillDisappear_cancels_all:
  assumes "timers w0 = []"
  shows "timers (onWillDisappear (fold dispatch evs w0)) = []
    \<and> timeoutHandles (onWillDisappear (fold dispatch evs w0)) = []
    \<and> effects (onWillDisappear (fold dispatch evs w0)) = effects (fold dispatch evs w0)
    \<and> (\<forall>d. effects (advance d (onWillDisappear (fold dispatch evs w0))) =
            effects (fold dispatch evs w0))"
proof -
  let ?w = "fold dispatch evs w0"
  from assms have "timers_tracked w0"
    by (simp add: timers_tracked_def)
  then have "timers_tracked ?w"
    by (rule timers_tracked_fold_dispatch)
  then have none: "timers (onWillDisappear ?w) = []"
    by (rule timers_onWillDisappear)
  then have "timer_effects d (onWillDisappear ?w) = []" for d
    by (simp add: timer_effects_def due_timers_def)
  then have "effects (advance d (onWillDisappear ?w)) = effects ?w" for d
    by (simp add: effects_advance onWillDisappear_fields)
  with none show ?thesis
    by (simp add: onWillDisappear_fields)
qed

theorem onWillDisappear_cancels_all_witness:
  "timers (fresh_world [] (\<lambda>n. Rejects (JsError ''offline''))) = []
   \<and> timers (fold dispatch [KeyUp ''key1'' \<lparr>automationId = None, automationName = None\<rparr>]
        (fresh_world [] (\<lambda>n. Rejects (JsError ''offline'')))) =
       [(0, 3000, ResetTitle ''key1'' ''Configure\<newline>Automation'')]
   \<and> effects (advance 5000 (onWillDisappear
        (fold dispatch [KeyUp ''key1'' \<lparr>automationId = None, automationName = None\<rparr>]
           (fresh_world [] (\<lambda>n. Rejects (JsError ''offline'')))))) =
       [SetTitle ''key1'' ''Missing\<newline>API Key'', ShowAlert ''key1'']"
proof -
  let ?w0 = "fresh_world [] (\<lambda>n. Rejects (JsError ''offline''))"
  let ?evs = "[KeyUp ''key1'' \<lparr>automationId = None, automationName = None\<rparr>]"
  have start: "timers ?w0 = []"
    by (simp add: fresh_world_def)
  have pending: "timers (fold dispatch ?evs ?w0) =
      [(0, 3000, ResetTitle ''key1'' ''Configure\<newline>Automation'')]"
    by (simp add: onKeyUp_def onKeyUp_try_def getApiKey_def truthy_def fresh_world_def host_defs)
  have before: "effects (fold dispatch ?evs ?w0) =
      [SetTitle ''key1'' ''Missing\<newline>API Key'', ShowAlert ''key1'']"
    by (simp add: onKeyUp_def onKeyUp_try_def getApiKey_def truthy_def fresh_world_def host_defs)
  from onWillDisappear_cancels_all [OF start, of ?evs]
  have "effects (advance 5000 (onWillDisappear (fold dispatch ?evs ?w0))) =
          effects (fold dispatch ?evs ?w0)"
    by blast
  with start pending before show ?thesis
    by simp
qed

section \<open>Messages from the property inspector\<close>

lemma effects_sendToPropertyInspector:
  "effects (sendToPropertyInspector r w) = effects w @ relayed r w"
  by (simp add: sendToPropertyInspector_def relayed_def emit_def)

lemma relayed_cong: "inspector_open w' = inspector_open w \<Longrightarrow> relayed r w' = relayed r w"
  by (simp add: relayed_def)

lemma visible_title_relayed: "visible_title ctx (relayed r w) = None"
  by (simp add: relayed_def)

lemma effects_validateApiKeyAndFetchAutomations:
  "\<exists>r. effects (validateApiKeyAndFetchAutomations k w) =
         effects w @ [Fetch (GetAutomations k)] @ relayed r w"
proof -
  let ?w1 = "(emit (Fetch (GetAutomations k)) w)\<lparr>fetches := Suc (fetches w)\<rparr>"
  have e1: "effects ?w1 = effects w @ [Fetch (GetAutomations k)]"
    by (simp add: emit_def)
  have r1: "relayed r ?w1 = relayed r w" for r
    by (rule relayed_cong) (simp add: emit_def)
  have sent: ?thesis if "validateApiKeyAndFetchAutomations k w = sendToPropertyInspector r ?w1" for r
  proof -
    have "effects (validateApiKeyAndFetchAutomations k w) =
        effects w @ [Fetch (GetAutomations k)] @ relayed r w"
      by (simp only: that effects_sendToPropertyInspector e1 r1) simp
    then show ?thesis ..
  qed
  show ?thesis
  proof (cases "network w (fetches w)")
    case (Rejects e)
    then show ?thesis
      by (intro sent) (simp add: validateApiKeyAndFetchAutomations_def fetch_def)
  next
    case (Responds st body)
    show ?thesis
    proof (cases "response_ok st")
      case False
      with Responds show ?thesis
        by (intro sent) (simp add: validateApiKeyAndFetchAutomations_def fetch_def)
    next
      case True
      show ?thesis
      proof (cases body)
        case (JsonThrows e)
        with Responds True show ?thesis
          by (intro sent) (simp add: validateApiKeyAndFetchAutomations_def fetch_def)
      next
        case (JsonValue a)
        with Responds True show ?thesis
          by (intro sent) (simp add: validateApiKeyAndFetchAutomations_def fetch_def)
      qed
    qed
  qed
qed

lemma fetches_validateApiKeyAndFetchAutomations:
  "fetches (validateApiKeyAndFetchAutomations k w) = Suc (fetches w)"
  by (simp add: validateApiKeyAndFetchAutomations_def fetch_def sendToPropertyInspector_def
      emit_def split: fetch_outcome.splits json_result.splits)

lemma visible_title_validateApiKeyAndFetchAutomations:
  "visible_title ctx (effects (validateApiKeyAndFetchAutomations k w)) =
     visible_title ctx (effects w)"
proof -
  from effects_validateApiKeyAndFetchAutomations [of k w]
  obtain r where "effects (validateApiKeyAndFetchAutomations k w) =
         effects w @ [Fetch (GetAutomations k)] @ relayed r w" ..
  then show ?thesis
    by (simp add: visible_title_append visible_title_relayed)
qed

text \<open>
  C10. A message whose action is none of \<open>saveApiKey\<close>, \<open>testApiKey\<close>,
  \<open>fetchAutomations\<close> and \<open>getApiKey\<close>, and a \<open>saveApiKey\<close>, \<open>testApiKey\<close> or
  \<open>fetchAutomations\<close> message whose data holds no \<open>apiKey\<close> or an empty one, does
  nothing: the handler throws nothing and leaves the world as it was, so no settings are
  written, no request is made and no message is relayed.
\<close>

theorem onSendToPlugin_ignored:
  "(action payload \<notin> {''saveApiKey'', ''testApiKey'', ''fetchAutomations'', ''getApiKey''} \<longrightarrow>
      onSendToPlugin payload w = (None, w))
   \<and> (action payload \<in> {''saveApiKey'', ''testApiKey'', ''fetchAutomations''}
        \<and> apiKey (data payload) \<in> {None, Some []} \<longrightarrow>
      onSendToPlugin payload w = (None, w))"
  by (auto simp: onSendToPlugin_def truthy_def)

theorem onSendToPlugin_ignored_witness:
  "onSendToPlugin \<lparr>action = ''refresh'', data = \<lparr>apiKey = Some ''eko_0123456789''\<rparr>\<rparr>
     (fresh_world [] (\<lambda>n. Rejects (JsError ''offline''))) =
     (None, fresh_world [] (\<lambda>n. Rejects (JsError ''offline'')))
   \<and> onSendToPlugin \<lparr>action = ''testApiKey'', data = \<lparr>apiKey = Some []\<rparr>\<rparr>
     (fresh_world [] (\<lambda>n. Rejects (JsError ''offline''))) =
     (None, fresh_world [] (\<lambda>n. Rejects (JsError ''offline'')))"
proof -
  let ?w = "fresh_world [] (\<lambda>n. Rejects (JsError ''offline''))"
  let ?p = "\<lparr>action = ''refresh'', data = \<lparr>apiKey = Some ''eko_0123456789''\<rparr>\<rparr>"
  let ?q = "\<lparr>action = ''testApiKey'', data = \<lparr>apiKey = Some []\<rparr>\<rparr>"
  have unknown: "action ?p \<notin> {''saveApiKey'', ''testApiKey'', ''fetchAutomations'', ''getApiKey''}"
    by simp
  have empty: "action ?q \<in> {''saveApiKey'', ''testApiKey'', ''fetchAutomations''}
      \<and> apiKey (data ?q) \<in> {None, Some []}"
    by simp
  from onSendToPlugin_ignored [of ?p ?w] unknown
  have 1: "onSendToPlugin ?p ?w = (None, ?w)"
    by blast
  from onSendToPlugin_ignored [of ?q ?w] empty
  have 2: "onSendToPlugin ?q ?w = (None, ?w)"
    by blast
  from 1 2 show ?thesis ..
qed

text \<open>
  C7, as amended. A \<open>saveApiKey\<close> message whose key fails \<open>validateApiKey\<close> leaves the
  world as it was: the stored credential is not changed, no request is made, nothing is
  relayed. An empty key is ignored. For a key that is not empty, \<open>saveApiKey\<close> throws the
  error \<open>Invalid API key format\<close>, and \<open>onSendToPlugin\<close>, which has no \<open>try\<close> block, ends by
  throwing it.
\<close>

theorem onSendToPlugin_saveApiKey_invalid:
  assumes "action payload = ''saveApiKey''"
    and "apiKey (data payload) = Some k"
    and "\<not> validateApiKey k"
  shows "snd (onSendToPlugin payload w) = w
    \<and> fst (onSendToPlugin payload w) =
        (if k = [] then None else Some (JsError ''Invalid API key format''))"
  using assms by (simp add: onSendToPlugin_def saveApiKey_def truthy_def text_of_def)

theorem onSendToPlugin_saveApiKey_invalid_witness:
  "\<not> validateApiKey ''bad key''
   \<and> snd (onSendToPlugin \<lparr>action = ''saveApiKey'', data = \<lparr>apiKey = Some ''bad key''\<rparr>\<rparr>
       (fresh_world [(''apiKey'', ''eko_0123456789'')] (\<lambda>n. Responds 200 (JsonValue None)))) =
     fresh_world [(''apiKey'', ''eko_0123456789'')] (\<lambda>n. Responds 200 (JsonValue None))"
proof -
  let ?w = "fresh_world [(''apiKey'', ''eko_0123456789'')] (\<lambda>n. Responds 200 (JsonValue None))"
  let ?p = "\<lparr>action = ''saveApiKey'', data = \<lparr>apiKey = Some ''bad key''\<rparr>\<rparr>"
  have bad: "\<not> validateApiKey ''bad key''"
    by (simp add: validateApiKey_def)
  have a: "action ?p = ''saveApiKey''" and k: "apiKey (data ?p) = Some ''bad key''"
    by simp_all
  from onSendToPlugin_saveApiKey_invalid [OF a k bad, of ?w]
  have "snd (onSendToPlugin ?p ?w) = ?w" ..
  with bad show ?thesis ..
qed

text \<open>
  The claim as stated says that the failed validation does not escape the message
  handler. For the key \<open>bad key\<close> the handler ends by throwing the error.
\<close>

theorem onSendToPlugin_saveApiKey_invalid_counterexample:
  "fst (onSendToPlugin \<lparr>action = ''saveApiKey'', data = \<lparr>apiKey = Some ''bad key''\<rparr>\<rparr>
       (fresh_world [(''apiKey'', ''eko_0123456789'')] (\<lambda>n. Responds 200 (JsonValue None)))) =
     Some (JsError ''Invalid API key format'')"
  by (simp add: onSendToPlugin_def saveApiKey_def truthy_def text_of_def validateApiKey_def)

text \<open>
  C5. What \<open>handleFetchAutomations\<close> does when the request, or the decoding of the
  response's body, throws an \<open>Error\<close> with a message that is not empty: it relays that
  message as it is, as the \<open>error\<close> of an \<open>automationsError\<close> event. The claim asks for a
  sanitized label instead, as the sibling \<open>validateApiKeyAndFetchAutomations\<close> relays one
  for the same failure (the second half of the theorem's instance below).
\<close>

theorem handleFetchAutomations_relays_message:
  assumes "inspector_open w" and "m \<noteq> []"
    and "network w (fetches w) = Rejects (JsError m)
         \<or> (\<exists>st. response_ok st \<and> network w (fetches w) = Responds st (JsonThrows (JsError m)))"
  shows "effects (handleFetchAutomations k w) =
           effects w @ [Fetch (GetAutomations k), SendToPropertyInspector (AutomationsError m)]"
  using assms
  by (auto simp: handleFetchAutomations_def handleFetchAutomations_catch_def
      message_or_default_def fetch_def sendToPropertyInspector_def emit_def)

theorem handleFetchAutomations_relays_message_witness:
  "effects (handleFetchAutomations ''eko_0123456789''
      (fresh_world [] (\<lambda>n. Rejects (JsError ''getaddrinfo ENOTFOUND api.eeko.app'')))) =
     [Fetch (GetAutomations ''eko_0123456789''),
      SendToPropertyInspector (AutomationsError ''getaddrinfo ENOTFOUND api.eeko.app'')]
   \<and> effects (validateApiKeyAndFetchAutomations ''eko_0123456789''
      (fresh_world [] (\<lambda>n. Rejects (JsError ''getaddrinfo ENOTFOUND api.eeko.app'')))) =
     [Fetch (GetAutomations ''eko_0123456789''),
      SendToPropertyInspector (ApiKeyError ''Connection error - check your internet connection'')]"
proof -
  let ?w = "fresh_world [] (\<lambda>n. Rejects (JsError ''getaddrinfo ENOTFOUND api.eeko.app''))"
  have "open": "inspector_open ?w" and quiet: "effects ?w = []"
    by (simp_all add: fresh_world_def)
  have msg: "''getaddrinfo ENOTFOUND api.eeko.app'' \<noteq> []"
    by simp
  have net: "network ?w (fetches ?w) = Rejects (JsError ''getaddrinfo ENOTFOUND api.eeko.app'')
      \<or> (\<exists>st. response_ok st \<and> network ?w (fetches ?w) =
            Responds st (JsonThrows (JsError ''getaddrinfo ENOTFOUND api.eeko.app'')))"
    by (simp add: fresh_world_def)
  have raw: "effects (handleFetchAutomations ''eko_0123456789'' ?w) =
      effects ?w @ [Fetch (GetAutomations ''eko_0123456789''),
        SendToPropertyInspector (AutomationsError ''getaddrinfo ENOTFOUND api.eeko.app'')]"
    by (rule handleFetchAutomations_relays_message [OF "open" msg net])
  have sibling: "effects (validateApiKeyAndFetchAutomations ''eko_0123456789'' ?w) =
     [Fetch (GetAutomations ''eko_0123456789''),
      SendToPropertyInspector (ApiKeyError ''Connection error - check your internet connection'')]"
    by (simp add: validateApiKeyAndFetchAutomations_def fetch_def sendToPropertyInspector_def
        emit_def fresh_world_def)
  from raw quiet sibling show ?thesis
    by simp
qed

section \<open>Appear and settings-changed\<close>

lemma getApiKey_emit: "getApiKey (emit e w) = getApiKey w"
  by (simp add: getApiKey_def getGlobalSettings_def emit_def split: option.splits)

lemma truthy_Some: "truthy (Some s) \<longleftrightarrow> s \<noteq> []"
  by (simp add: truthy_def)

lemma truthy_None: "\<not> truthy None"
  by (simp add: truthy_def)

lemma title_setTitle: "visible_title ctx (effects (setTitle ctx t w)) = Some t"
  by (simp add: setTitle_def emit_def visible_title_append)

lemma title_onDidReceiveSettings:
  "visible_title ctx (effects (onDidReceiveSettings ctx settings w)) =
     Some (if truthy (automationName settings) then text_of (automationName settings)
           else if truthy (getApiKey w) then ''Select\<newline>Automation''
           else ''Configure\<newline>Automation'')"
  by (simp add: onDidReceiveSettings_def Let_def visible_title_validateApiKeyAndFetchAutomations
      title_setTitle)

lemma onKeyUp_not_both:
  assumes "\<not> (truthy (automationId settings) \<and> truthy (automationName settings))"
  shows "onKeyUp ctx settings w =
    (if truthy (getApiKey w)
     then schedule (ResetTitle ctx ''Select\<newline>Automation'') 3000
            (showAlert ctx (setTitle ctx ''No Automation\<newline>Selected'' w))
     else schedule (ResetTitle ctx ''Configure\<newline>Automation'') 3000
            (showAlert ctx (setTitle ctx ''Missing\<newline>API Key'' w)))"
  using assms by (auto simp: onKeyUp_def onKeyUp_try_def)

text \<open>What \<open>validateApiKeyAndFetchAutomations\<close> relays, by the outcome of its request.\<close>

lemma validateApiKeyAndFetchAutomations_rejected:
  "network w (fetches w) = Rejects e \<Longrightarrow>
   effects (validateApiKeyAndFetchAutomations k w) =
     effects w @ [Fetch (GetAutomations k)]
       @ relayed (ApiKeyError ''Connection error - check your internet connection'') w"
  by (simp add: validateApiKeyAndFetchAutomations_def fetch_def sendToPropertyInspector_def
      relayed_def emit_def)

lemma validateApiKeyAndFetchAutomations_loaded:
  "network w (fetches w) = Responds st (JsonValue a) \<Longrightarrow> response_ok st \<Longrightarrow>
   effects (validateApiKeyAndFetchAutomations k w) =
     effects w @ [Fetch (GetAutomations k)]
       @ relayed (AutomationsLoaded (case a of None \<Rightarrow> [] | Some xs \<Rightarrow> xs)) w"
  by (simp add: validateApiKeyAndFetchAutomations_def fetch_def sendToPropertyInspector_def
      relayed_def emit_def automations_or_empty_def)

lemma validateApiKeyAndFetchAutomations_undecodable:
  "network w (fetches w) = Responds st (JsonThrows e) \<Longrightarrow> response_ok st \<Longrightarrow>
   effects (validateApiKeyAndFetchAutomations k w) =
     effects w @ [Fetch (GetAutomations k)]
       @ relayed (ApiKeyError ''Connection error - check your internet connection'') w"
  by (simp add: validateApiKeyAndFetchAutomations_def fetch_def sendToPropertyInspector_def
      relayed_def emit_def)

lemma validateApiKeyAndFetchAutomations_refused:
  "network w (fetches w) = Responds st body \<Longrightarrow> \<not> response_ok st \<Longrightarrow>
   effects (validateApiKeyAndFetchAutomations k w) =
     effects w @ [Fetch (GetAutomations k)]
       @ relayed (ApiKeyError (''API key validation failed: '' @ string_of_nat st)) w"
  by (simp add: validateApiKeyAndFetchAutomations_def fetch_def sendToPropertyInspector_def
      relayed_def emit_def)

text \<open>
  C2, as amended. Let the settings hold no automation name. On an appear event the title
  becomes \<open>Configure\<newline>Automation\<close> and nothing else happens, whether or not a
  credential is stored: \<open>onWillAppear\<close> does not read the credential and makes no request.
  On a settings-changed event with a credential stored, the title becomes
  \<open>Select\<newline>Automation\<close>. If the settings hold an automation id, nothing else happens.
  If they hold none, one request for the catalog is then made with the credential, and
  its outcome is relayed to the property inspector, if one is open: the catalog (empty
  when the response holds none) as \<open>automationsLoaded\<close> for an ok response; the error
  \<open>API key validation failed: <status>\<close> as \<open>apiKeyError\<close> for a response that is not ok;
  the error \<open>Connection error - check your internet connection\<close> as \<open>apiKeyError\<close> when
  the request, or the decoding of an ok response, throws.
\<close>

theorem settings_without_automation:
  assumes "\<not> truthy (automationName settings)"
  shows "onWillAppear ctx settings w = setTitle ctx ''Configure\<newline>Automation'' w
    \<and> effects (onWillAppear ctx settings w) = effects w @ [SetTitle ctx ''Configure\<newline>Automation'']
    \<and> fetches (onWillAppear ctx settings w) = fetches w
    \<and> (getApiKey w = Some k \<and> k \<noteq> [] \<longrightarrow>
        visible_title ctx (effects (onDidReceiveSettings ctx settings w)) =
          Some ''Select\<newline>Automation''
        \<and> (truthy (automationId settings) \<longrightarrow>
              onDidReceiveSettings ctx settings w = setTitle ctx ''Select\<newline>Automation'' w)
        \<and> (\<not> truthy (automationId settings) \<longrightarrow>
              fetches (onDidReceiveSettings ctx settings w) = Suc (fetches w)
            \<and> (\<forall>e. network w (fetches w) = Rejects e \<longrightarrow>
                  effects (onDidReceiveSettings ctx settings w) =
                    effects w @ [SetTitle ctx ''Select\<newline>Automation'', Fetch (GetAutomations k)]
                      @ (if inspector_open w
                         then [SendToPropertyInspector
                                 (ApiKeyError ''Connection error - check your internet connection'')]
                         else []))
            \<and> (\<forall>st a. network w (fetches w) = Responds st (JsonValue a) \<and> response_ok st \<longrightarrow>
                  effects (onDidReceiveSettings ctx settings w) =
                    effects w @ [SetTitle ctx ''Select\<newline>Automation'', Fetch (GetAutomations k)]
                      @ (if inspector_open w
                         then [SendToPropertyInspector
                                 (AutomationsLoaded (case a of None \<Rightarrow> [] | Some xs \<Rightarrow> xs))]
                         else []))
            \<and> (\<forall>st e. network w (fetches w) = Responds st (JsonThrows e) \<and> response_ok st \<longrightarrow>
                  effects (onDidReceiveSettings ctx settings w) =
                    effects w @ [SetTitle ctx ''Select\<newline>Automation'', Fetch (GetAutomations k)]
                      @ (if inspector_open w
                         then [SendToPropertyInspector
                                 (ApiKeyError ''Connection error - check your internet connection'')]
                         else []))
            \<and> (\<forall>st body. network w (fetches w) = Responds st body \<and> \<not> response_ok st \<longrightarrow>
                  effects (onDidReceiveSettings ctx settings w) =
                    effects w @ [SetTitle ctx ''Select\<newline>Automation'', Fetch (GetAutomations k)]
                      @ (if inspector_open w
                         then [SendToPropertyInspector
                                 (ApiKeyError (''API key validation failed: '' @ string_of_nat st))]
                         else []))))"
proof -
  let ?w1 = "setTitle ctx ''Select\<newline>Automation'' w"
  have appear: "onWillAppear ctx settings w = setTitle ctx ''Configure\<newline>Automation'' w"
    using assms by (simp add: onWillAppear_def)
  have appear_effects:
    "effects (onWillAppear ctx settings w) = effects w @ [SetTitle ctx ''Configure\<newline>Automation'']"
    and appear_fetches: "fetches (onWillAppear ctx settings w) = fetches w"
    by (simp_all add: appear setTitle_def emit_def)
  have changed:
    "visible_title ctx (effects (onDidReceiveSettings ctx settings w)) =
          Some ''Select\<newline>Automation''
        \<and> (truthy (automationId settings) \<longrightarrow>
              onDidReceiveSettings ctx settings w = setTitle ctx ''Select\<newline>Automation'' w)
        \<and> (\<not> truthy (automationId settings) \<longrightarrow>
              fetches (onDidReceiveSettings ctx settings w) = Suc (fetches w)
            \<and> (\<forall>e. network w (fetches w) = Rejects e \<longrightarrow>
                  effects (onDidReceiveSettings ctx settings w) =
                    effects w @ [SetTitle ctx ''Select\<newline>Automation'', Fetch (GetAutomations k)]
                      @ (if inspector_open w
                         then [SendToPropertyInspector
                                 (ApiKeyError ''Connection error - check your internet connection'')]
                         else []))
            \<and> (\<forall>st a. network w (fetches w) = Responds st (JsonValue a) \<and> response_ok st \<longrightarrow>
                  effects (onDidReceiveSettings ctx settings w) =
                    effects w @ [SetTitle ctx ''Select\<newline>Automation'', Fetch (GetAutomations k)]
                      @ (if inspector_open w
                         then [SendToPropertyInspector
                                 (AutomationsLoaded (case a of None \<Rightarrow> [] | Some xs \<Rightarrow> xs))]
                         else []))
            \<and> (\<forall>st e. network w (fetches w) = Responds st (JsonThrows e) \<and> response_ok st \<longrightarrow>
                  effects (onDidReceiveSettings ctx settings w) =
                    effects w @ [SetTitle ctx ''Select\<newline>Automation'', Fetch (GetAutomations k)]
                      @ (if inspector_open w
                         then [SendToPropertyInspector
                                 (ApiKeyError ''Connection error - check your internet connection'')]
                         else []))
            \<and> (\<forall>st body. network w (fetches w) = Responds st body \<and> \<not> response_ok st \<longrightarrow>
                  effects (onDidReceiveSettings ctx settings w) =
                    effects w @ [SetTitle ctx ''Select\<newline>Automation'', Fetch (GetAutomations k)]
                      @ (if inspector_open w
                         then [SendToPropertyInspector
                                 (ApiKeyError (''API key validation failed: '' @ string_of_nat st))]
                         else [])))"
    if key: "getApiKey w = Some k" "k \<noteq> []"
  proof -
    have key1: "getApiKey ?w1 = Some k"
      using key(1) by (simp add: setTitle_def getApiKey_emit)
    have e1: "effects ?w1 = effects w @ [SetTitle ctx ''Select\<newline>Automation'']"
      and f1: "fetches ?w1 = fetches w" and n1: "network ?w1 = network w"
      and r1: "relayed r ?w1 = (if inspector_open w then [SendToPropertyInspector r] else [])" for r
      by (simp_all add: setTitle_def emit_def relayed_def)
    have with_id: "onDidReceiveSettings ctx settings w = ?w1" if "truthy (automationId settings)"
      using assms key that by (simp add: onDidReceiveSettings_def Let_def truthy_Some key1)
    have without_id: "onDidReceiveSettings ctx settings w = validateApiKeyAndFetchAutomations k ?w1"
      if "\<not> truthy (automationId settings)"
      using assms key that
      by (simp add: onDidReceiveSettings_def Let_def truthy_Some key1 text_of_def)
    have title: "visible_title ctx (effects (onDidReceiveSettings ctx settings w)) =
             Some ''Select\<newline>Automation''"
    proof (cases "truthy (automationId settings)")
      case True
      then show ?thesis
        by (simp add: with_id e1 visible_title_append)
    next
      case False
      then show ?thesis
        by (simp add: without_id visible_title_validateApiKeyAndFetchAutomations e1
            visible_title_append)
    qed
    have fetching:
      "fetches (onDidReceiveSettings ctx settings w) = Suc (fetches w)
            \<and> (\<forall>e. network w (fetches w) = Rejects e \<longrightarrow>
                  effects (onDidReceiveSettings ctx settings w) =
                    effects w @ [SetTitle ctx ''Select\<newline>Automation'', Fetch (GetAutomations k)]
                      @ (if inspector_open w
                         then [SendToPropertyInspector
                                 (ApiKeyError ''Connection error - check your internet connection'')]
                         else []))
            \<and> (\<forall>st a. network w (fetches w) = Responds st (JsonValue a) \<and> response_ok st \<longrightarrow>
                  effects (onDidReceiveSettings ctx settings w) =
                    effects w @ [SetTitle ctx ''Select\<newline>Automation'', Fetch (GetAutomations k)]
                      @ (if inspector_open w
                         then [SendToPropertyInspector
                                 (AutomationsLoaded (case a of None \<Rightarrow> [] | Some xs \<Rightarrow> xs))]
                         else []))
            \<and> (\<forall>st e. network w (fetches w) = Responds st (JsonThrows e) \<and> response_ok st \<longrightarrow>
                  effects (onDidReceiveSettings ctx settings w) =
                    effects w @ [SetTitle ctx ''Select\<newline>Automation'', Fetch (GetAutomations k)]
                      @ (if inspector_open w
                         then [SendToPropertyInspector
                                 (ApiKeyError ''Connection error - check your internet connection'')]
                         else []))
            \<and> (\<forall>st body. network w (fetches w) = Responds st body \<and> \<not> response_ok st \<longrightarrow>
                  effects (onDidReceiveSettings ctx settings w) =
                    effects w @ [SetTitle ctx ''Select\<newline>Automation'', Fetch (GetAutomations k)]
                      @ (if inspector_open w
                         then [SendToPropertyInspector
                                 (ApiKeyError (''API key validation failed: '' @ string_of_nat st))]
                         else []))"
      if no_id: "\<not> truthy (automationId settings)"
    proof -
      note run = without_id [OF no_id]
      have count: "fetches (onDidReceiveSettings ctx settings w) = Suc (fetches w)"
        by (simp add: run fetches_validateApiKeyAndFetchAutomations f1)
      have rejected: "effects (onDidReceiveSettings ctx settings w) =
          effects w @ [SetTitle ctx ''Select\<newline>Automation'', Fetch (GetAutomations k)]
            @ (if inspector_open w
               then [SendToPropertyInspector
                       (ApiKeyError ''Connection error - check your internet connection'')]
               else [])"
        if "network w (fetches w) = Rejects e" for e
      proof -
        from that have "network ?w1 (fetches ?w1) = Rejects e"
          by (simp add: n1 f1)
        from validateApiKeyAndFetchAutomations_rejected [OF this, of k] show ?thesis
          by (simp only: run e1 r1) simp
      qed
      have loaded: "effects (onDidReceiveSettings ctx settings w) =
          effects w @ [SetTitle ctx ''Select\<newline>Automation'', Fetch (GetAutomations k)]
            @ (if inspector_open w
               then [SendToPropertyInspector
                       (AutomationsLoaded (case a of None \<Rightarrow> [] | Some xs \<Rightarrow> xs))]
               else [])"
        if "network w (fetches w) = Responds st (JsonValue a)" "response_ok st" for st a
      proof -
        from that(1) have "network ?w1 (fetches ?w1) = Responds st (JsonValue a)"
          by (simp add: n1 f1)
        from validateApiKeyAndFetchAutomations_loaded [OF this that(2), of k] show ?thesis
          by (simp only: run e1 r1) simp
      qed
      have undecodable: "effects (onDidReceiveSettings ctx settings w) =
          effects w @ [SetTitle ctx ''Select\<newline>Automation'', Fetch (GetAutomations k)]
            @ (if inspector_open w
               then [SendToPropertyInspector
                       (ApiKeyError ''Connection error - check your internet connection'')]
               else [])"
        if "network w (fetches w) = Responds st (JsonThrows e)" "response_ok st" for st e
      proof -
        from that(1) have "network ?w1 (fetches ?w1) = Responds st (JsonThrows e)"
          by (simp add: n1 f1)
        from validateApiKeyAndFetchAutomations_undecodable [OF this that(2), of k] show ?thesis
          by (simp only: run e1 r1) simp
      qed
      have refused: "effects (onDidReceiveSettings ctx settings w) =
          effects w @ [SetTitle ctx ''Select\<newline>Automation'', Fetch (GetAutomations k)]
            @ (if inspector_open w
               then [SendToPropertyInspector
                       (ApiKeyError (''API key validation failed: '' @ string_of_nat st))]
               else [])"
        if "network w (fetches w) = Responds st body" "\<not> response_ok st" for st body
      proof -
        from that(1) have "network ?w1 (fetches ?w1) = Responds st body"
          by (simp add: n1 f1)
        from validateApiKeyAndFetchAutomations_refused [OF this that(2), of k] show ?thesis
          by (simp only: run e1 r1) simp
      qed
      from count rejected loaded undecodable refused show ?thesis
        by blast
    qed
    from title with_id fetching show ?thesis
      by blast
  qed
  from appear appear_effects appear_fetches changed show ?thesis
    by blast
qed

theorem settings_without_automation_witness:
  "effects (onDidReceiveSettings ''key1'' \<lparr>automationId = None, automationName = None\<rparr>
      (fresh_world [(''apiKey'', ''eko_0123456789'')]
         (\<lambda>n. Responds 200 (JsonValue (Some
            [\<lparr>data_id = ''a1'', data_name = ''Lights'', data_description = None\<rparr>]))))) =
     [SetTitle ''key1'' ''Select\<newline>Automation'',
      Fetch (GetAutomations ''eko_0123456789''),
      SendToPropertyInspector (AutomationsLoaded
        [\<lparr>data_id = ''a1'', data_name = ''Lights'', data_description = None\<rparr>])]
   \<and> effects (onDidReceiveSettings ''key1'' \<lparr>automationId = None, automationName = None\<rparr>
      (fresh_world [(''apiKey'', ''eko_0123456789'')] (\<lambda>n. Responds 401 (JsonValue None)))) =
     [SetTitle ''key1'' ''Select\<newline>Automation'',
      Fetch (GetAutomations ''eko_0123456789''),
      SendToPropertyInspector (ApiKeyError ''API key validation failed: 401'')]
   \<and> effects (onWillAppear ''key1'' \<lparr>automationId = None, automationName = None\<rparr>
      (fresh_world [(''apiKey'', ''eko_0123456789'')] (\<lambda>n. Responds 401 (JsonValue None)))) =
     [SetTitle ''key1'' ''Configure\<newline>Automation'']
   \<and> effects (onWillAppear ''key1'' \<lparr>automationId = None, automationName = None\<rparr>
      (fresh_world [] (\<lambda>n. Responds 401 (JsonValue None)))) =
     [SetTitle ''key1'' ''Configure\<newline>Automation'']"
proof -
  let ?catalog = "[\<lparr>data_id = ''a1'', data_name = ''Lights'', data_description = None\<rparr>]"
  let ?w_ok = "fresh_world [(''apiKey'', ''eko_0123456789'')]
                 (\<lambda>n. Responds 200 (JsonValue (Some ?catalog)))"
  let ?w_401 = "fresh_world [(''apiKey'', ''eko_0123456789'')] (\<lambda>n. Responds 401 (JsonValue None))"
  let ?w_bare = "fresh_world [] (\<lambda>n. Responds 401 (JsonValue None))"
  let ?s = "\<lparr>automationId = None, automationName = None\<rparr>"
  have no_name: "\<not> truthy (automationName ?s)" and no_id: "\<not> truthy (automationId ?s)"
    by (simp_all add: truthy_def)
  have key_ok: "getApiKey ?w_ok = Some ''eko_0123456789'' \<and> ''eko_0123456789'' \<noteq> []"
    and key_401: "getApiKey ?w_401 = Some ''eko_0123456789'' \<and> ''eko_0123456789'' \<noteq> []"
    by (simp_all add: getApiKey_def getGlobalSettings_def fresh_world_def)
  have net_ok: "network ?w_ok (fetches ?w_ok) = Responds 200 (JsonValue (Some ?catalog))
      \<and> response_ok 200"
    and net_401: "network ?w_401 (fetches ?w_401) = Responds 401 (JsonValue None)
      \<and> \<not> response_ok 401"
    by (simp_all add: fresh_world_def response_ok_def)
  have start: "effects ?w_ok = []" "inspector_open ?w_ok" "effects ?w_401 = []"
    "inspector_open ?w_401" "effects ?w_bare = []"
    by (simp_all add: fresh_world_def)
  from settings_without_automation [OF no_name, of "''key1''" ?w_ok "''eko_0123456789''"]
    key_ok no_id net_ok
  have "effects (onDidReceiveSettings ''key1'' ?s ?w_ok) =
      effects ?w_ok @ [SetTitle ''key1'' ''Select\<newline>Automation'',
                       Fetch (GetAutomations ''eko_0123456789'')]
        @ (if inspector_open ?w_ok
           then [SendToPropertyInspector
                   (AutomationsLoaded (case Some ?catalog of None \<Rightarrow> [] | Some xs \<Rightarrow> xs))]
           else [])"
    by blast
  then have 1: "effects (onDidReceiveSettings ''key1'' ?s ?w_ok) =
      [SetTitle ''key1'' ''Select\<newline>Automation'', Fetch (GetAutomations ''eko_0123456789''),
       SendToPropertyInspector (AutomationsLoaded ?catalog)]"
    by (simp add: start)
  from settings_without_automation [OF no_name, of "''key1''" ?w_401 "''eko_0123456789''"]
    key_401 no_id net_401
  have "effects (onDidReceiveSettings ''key1'' ?s ?w_401) =
      effects ?w_401 @ [SetTitle ''key1'' ''Select\<newline>Automation'',
                        Fetch (GetAutomations ''eko_0123456789'')]
        @ (if inspector_open ?w_401
           then [SendToPropertyInspector
                   (ApiKeyError (''API key validation failed: '' @ string_of_nat 401))]
           else [])"
    by blast
  then have 2: "effects (onDidReceiveSettings ''key1'' ?s ?w_401) =
      [SetTitle ''key1'' ''Select\<newline>Automation'', Fetch (GetAutomations ''eko_0123456789''),
       SendToPropertyInspector (ApiKeyError ''API key validation failed: 401'')]"
    by (simp add: start digit_char_def)
  from settings_without_automation [OF no_name, of "''key1''" ?w_401 "''eko_0123456789''"]
  have "effects (onWillAppear ''key1'' ?s ?w_401) =
      effects ?w_401 @ [SetTitle ''key1'' ''Configure\<newline>Automation'']"
    by blast
  then have 3: "effects (onWillAppear ''key1'' ?s ?w_401) =
      [SetTitle ''key1'' ''Configure\<newline>Automation'']"
    by (simp add: start)
  from settings_without_automation [OF no_name, of "''key1''" ?w_bare "''eko_0123456789''"]
  have "effects (onWillAppear ''key1'' ?s ?w_bare) =
      effects ?w_bare @ [SetTitle ''key1'' ''Configure\<newline>Automation'']"
    by blast
  then have 4: "effects (onWillAppear ''key1'' ?s ?w_bare) =
      [SetTitle ''key1'' ''Configure\<newline>Automation'']"
    by (simp add: start)
  from 1 2 3 4 show ?thesis
    by (intro conjI)
qed

text \<open>
  The claim as stated gives the title \<open>Select\<newline>Automation\<close> to an appear event in
  this context. With a credential stored and empty settings, \<open>onWillAppear\<close> sets the
  title \<open>Configure\<newline>Automation\<close> and does nothing else.
\<close>

theorem settings_without_automation_counterexample:
  "getApiKey (fresh_world [(''apiKey'', ''eko_0123456789'')] (\<lambda>n. Responds 200 (JsonValue None))) =
     Some ''eko_0123456789''
   \<and> onWillAppear ''key1'' \<lparr>automationId = None, automationName = None\<rparr>
       (fresh_world [(''apiKey'', ''eko_0123456789'')] (\<lambda>n. Responds 200 (JsonValue None))) =
     (fresh_world [(''apiKey'', ''eko_0123456789'')] (\<lambda>n. Responds 200 (JsonValue None)))
       \<lparr>effects := [SetTitle ''key1'' ''Configure\<newline>Automation'']\<rparr>
   \<and> ''Configure\<newline>Automation'' \<noteq> ''Select\<newline>Automation''"
  by (simp add: onWillAppear_def truthy_def getApiKey_def getGlobalSettings_def fresh_world_def
      setTitle_def emit_def)

text \<open>
  C8, as amended. On key-up, settings with an automation id but no name, or a name but no
  id, are treated exactly as settings with neither. On an appear event, settings with no
  name are treated exactly as settings with neither, and on a settings-changed event they
  get the same title as settings with neither. Settings with a name are shown by that
  name on both events, whether or not they hold an id.
\<close>

theorem partial_settings:
  "(\<not> (truthy (automationId settings) \<and> truthy (automationName settings)) \<longrightarrow>
      onKeyUp ctx settings w = onKeyUp ctx \<lparr>automationId = None, automationName = None\<rparr> w)
   \<and> (\<not> truthy (automationName settings) \<longrightarrow>
        onWillAppear ctx settings w =
          onWillAppear ctx \<lparr>automationId = None, automationName = None\<rparr> w
        \<and> visible_title ctx (effects (onDidReceiveSettings ctx settings w)) =
            visible_title ctx (effects (onDidReceiveSettings ctx
              \<lparr>automationId = None, automationName = None\<rparr> w)))
   \<and> (truthy (automationName settings) \<longrightarrow>
        visible_title ctx (effects (onWillAppear ctx settings w)) = automationName settings
        \<and> visible_title ctx (effects (onDidReceiveSettings ctx settings w)) =
            automationName settings)"
proof -
  let ?none = "\<lparr>automationId = None, automationName = None\<rparr>"
  have neither: "\<not> (truthy (automationId ?none) \<and> truthy (automationName ?none))"
    by (simp add: truthy_None)
  have up: "onKeyUp ctx settings w = onKeyUp ctx ?none w"
    if "\<not> (truthy (automationId settings) \<and> truthy (automationName settings))"
    by (simp only: onKeyUp_not_both [OF that] onKeyUp_not_both [OF neither])
  have appear: "onWillAppear ctx settings w = onWillAppear ctx ?none w"
    if "\<not> truthy (automationName settings)"
    using that by (simp add: onWillAppear_def truthy_None)
  have changed: "visible_title ctx (effects (onDidReceiveSettings ctx settings w)) =
      visible_title ctx (effects (onDidReceiveSettings ctx ?none w))"
    if "\<not> truthy (automationName settings)"
    using that by (simp add: title_onDidReceiveSettings truthy_None)
  have named: "visible_title ctx (effects (onWillAppear ctx settings w)) = automationName settings
      \<and> visible_title ctx (effects (onDidReceiveSettings ctx settings w)) = automationName settings"
    if "truthy (automationName settings)"
  proof -
    from that obtain n where n: "automationName settings = Some n"
      by (cases "automationName settings") (simp_all add: truthy_None)
    with that show ?thesis
      by (simp add: title_onDidReceiveSettings onWillAppear_def title_setTitle text_of_def)
  qed
  from up appear changed named show ?thesis
    by blast
qed

theorem partial_settings_witness:
  "onKeyUp ''key1'' \<lparr>automationId = Some ''a1'', automationName = None\<rparr>
     (fresh_world [(''apiKey'', ''eko_0123456789'')] (\<lambda>n. Responds 200 (JsonValue None))) =
   onKeyUp ''key1'' \<lparr>automationId = None, automationName = None\<rparr>
     (fresh_world [(''apiKey'', ''eko_0123456789'')] (\<lambda>n. Responds 200 (JsonValue None)))
   \<and> onKeyUp ''key1'' \<lparr>automationId = None, automationName = Some ''Lights''\<rparr>
     (fresh_world [(''apiKey'', ''eko_0123456789'')] (\<lambda>n. Responds 200 (JsonValue None))) =
   onKeyUp ''key1'' \<lparr>automationId = None, automationName = None\<rparr>
     (fresh_world [(''apiKey'', ''eko_0123456789'')] (\<lambda>n. Responds 200 (JsonValue None)))
   \<and> effects (onKeyUp ''key1'' \<lparr>automationId = None, automationName = None\<rparr>
     (fresh_world [(''apiKey'', ''eko_0123456789'')] (\<lambda>n. Responds 200 (JsonValue None)))) =
     [SetTitle ''key1'' ''No Automation\<newline>Selected'', ShowAlert ''key1'']"
proof -
  let ?w = "fresh_world [(''apiKey'', ''eko_0123456789'')] (\<lambda>n. Responds 200 (JsonValue None))"
  let ?none = "\<lparr>automationId = None, automationName = None\<rparr>"
  let ?id_only = "\<lparr>automationId = Some ''a1'', automationName = None\<rparr>"
  let ?name_only = "\<lparr>automationId = None, automationName = Some ''Lights''\<rparr>"
  have a: "\<not> (truthy (automationId ?id_only) \<and> truthy (automationName ?id_only))"
    and b: "\<not> (truthy (automationId ?name_only) \<and> truthy (automationName ?name_only))"
    by (simp_all add: truthy_def)
  from partial_settings [of ?id_only "''key1''" ?w] a
  have 1: "onKeyUp ''key1'' ?id_only ?w = onKeyUp ''key1'' ?none ?w"
    by blast
  from partial_settings [of ?name_only "''key1''" ?w] b
  have 2: "onKeyUp ''key1'' ?name_only ?w = onKeyUp ''key1'' ?none ?w"
    by blast
  have 3: "effects (onKeyUp ''key1'' ?none ?w) =
      [SetTitle ''key1'' ''No Automation\<newline>Selected'', ShowAlert ''key1'']"
    by (simp add: onKeyUp_def onKeyUp_try_def getApiKey_def truthy_def fresh_world_def host_defs)
  from 1 2 3 show ?thesis
    by (intro conjI)
qed

text \<open>
  The claim as stated treats a name without an id as not configured on every event. On an
  appear event, settings with the name \<open>Lights\<close> and no id get the title \<open>Lights\<close>, not
  the title \<open>Configure\<newline>Automation\<close> of settings with neither.
\<close>

theorem partial_settings_counterexample:
  "onWillAppear ''key1'' \<lparr>automationId = None, automationName = Some ''Lights''\<rparr>
     (fresh_world [] (\<lambda>n. Rejects (JsError ''offline''))) =
     (fresh_world [] (\<lambda>n. Rejects (JsError ''offline'')))\<lparr>effects := [SetTitle ''key1'' ''Lights'']\<rparr>
   \<and> onWillAppear ''key1'' \<lparr>automationId = None, automationName = None\<rparr>
     (fresh_world [] (\<lambda>n. Rejects (JsError ''offline''))) =
     (fresh_world [] (\<lambda>n. Rejects (JsError ''offline'')))
       \<lparr>effects := [SetTitle ''key1'' ''Configure\<newline>Automation'']\<rparr>
   \<and> ''Lights'' \<noteq> ''Configure\<newline>Automation''"
  by (simp add: onWillAppear_def truthy_def text_of_def fresh_world_def setTitle_def emit_def)

end
